theory Spec2Isabelle
  imports Complex_Main "HOL-Library.Char_ord" "HOL-Library.List_Lexorder"
begin

section \<open>The hyper-parameter search orchestrator of dl4seq (hyper\_opt/hyper\_opt.py)\<close>

text \<open>
  The development embeds class \<open>HyperOpt\<close> of \<^verbatim>\<open>dl4seq/hyper_opt/hyper_opt.py\<close>.
  Python exceptions are values of type \<open>error\<close>; a function that may raise returns
  \<open>error + 'a\<close> with \<open>Inl\<close> for the exception. Python floats are modelled by
  exact reals: the rounding error of the binary representation is not part of the model,
  so two keys of the result store that differ only by such an error are one key here.
  Code of other libraries (scikit-learn, scikit-optimize, numpy, matplotlib, the file
  system) and the classes of \<^verbatim>\<open>dl4seq/hyper_opt/utils.py\<close>, which are not among the
  sources, enter as parameters: a call of theirs returns or raises as the parameter says.
\<close>

subsection \<open>Exceptions\<close>

datatype error =
    ValueError
  | AssertionError string
  | TypeError string
  | KeyError string
  | IndexError
  | AttributeError string
  | NotImplementedError
  | RecursionError
  | ObjectiveError string

subsection \<open>The table of algorithms\<close>

record algo_info =
  name :: "string option"
  backend :: "string list option"

definition ALGORITHMS :: "(string \<times> algo_info) list" where
  "ALGORITHMS =
    [(''gp'', \<lparr>name = Some ''gaussian_processes'', backend = Some [''skopt'']\<rparr>),
     (''bayes'', \<lparr>name = None, backend = None\<rparr>),
     (''forest'', \<lparr>name = Some ''decision_tree'', backend = Some [''skopt'']\<rparr>),
     (''gbrt'', \<lparr>name = Some ''gradient-boosted-tree regression'', backend = Some [''skopt'']\<rparr>),
     (''tpe'', \<lparr>name = Some ''Tree of Parzen Estimators'', backend = Some [''hyperopt'', ''optuna'']\<rparr>),
     (''atpe'', \<lparr>name = Some ''Adaptive Tree of Parzen Estimators'', backend = Some [''hyperopt'']\<rparr>),
     (''random'', \<lparr>name = Some ''random search'', backend = Some [''sklearn'', ''optuna'', ''hyperopt'']\<rparr>),
     (''grid'', \<lparr>name = Some ''grid search'', backend = Some [''sklearn'', ''optuna'']\<rparr>),
     (''cmaes'', \<lparr>name = Some ''Covariance Matrix Adaptation Evolution Strategy'',
                 backend = Some [''optuna'']\<rparr>)]"

text \<open>The backends the table lists for an algorithm: its compatibility set. An algorithm
  without a \<open>backend\<close> entry (\<open>bayes\<close>) or outside the table has none.\<close>

definition table_backends :: "string \<Rightarrow> string list" where
  "table_backends algorithm =
     (case map_of ALGORITHMS algorithm of
        None \<Rightarrow> []
      | Some info \<Rightarrow> (case backend info of None \<Rightarrow> [] | Some bs \<Rightarrow> bs))"

subsection \<open>The backend setter\<close>

text \<open>
  \<^verbatim>\<open>
  @backend.setter
  def backend(self, x):
      if x is not None:
          assert x in ['optuna', 'hyperopt', 'sklearn', 'skopt'], f"""
  Backend must be one of hyperopt, optuna or sklearn but is is {x}"""
      if self.algorithm == 'tpe':
          if x is None: x = 'optuna'
          assert x in ['optuna', 'hyperopt']
      elif self.algorithm == 'cmaes':
          if x is None: x = 'optuna'
          assert x == 'optuna'
      elif self.algorithm == 'atpe':
          if x is None: x = 'hyperopt'
          assert x == 'hyperopt'
      elif self.algorithm == 'random':
          if x is None: x = 'sklearn'
          assert x in ['optuna', 'hyperopt', 'sklearn']
      elif self.algorithm == 'grid':
          if x is None: x = 'sklearn'
          assert x in ['sklearn', 'optuna']
      elif self.algorithm == 'bayes':
          if x is None: x = 'skopt'
      else:
          raise ValueError
      self._backend = x
  \<close>
  The result is the value stored in \<open>_backend\<close>. An \<open>assert\<close> without a message
  raises \<open>AssertionError\<close> with the empty message.
\<close>

definition or_default :: "string option \<Rightarrow> string \<Rightarrow> string" where
  "or_default x d = (case x of None \<Rightarrow> d | Some b \<Rightarrow> b)"

definition assert_in :: "string \<Rightarrow> string list \<Rightarrow> error + string" where
  "assert_in x allowed = (if x \<in> set allowed then Inr x else Inl (AssertionError []))"

definition backend_message :: "string \<Rightarrow> string" where
  "backend_message x =
     CHR 0x0A # ''Backend must be one of hyperopt, optuna or sklearn but is is '' @ x"

definition backend_setter :: "string \<Rightarrow> string option \<Rightarrow> error + string" where
  "backend_setter algorithm x =
     (case (case x of
              None \<Rightarrow> None
            | Some b \<Rightarrow>
                if b \<in> set [''optuna'', ''hyperopt'', ''sklearn'', ''skopt''] then None
                else Some (AssertionError (backend_message b))) of
        Some e \<Rightarrow> Inl e
      | None \<Rightarrow>
          if algorithm = ''tpe'' then assert_in (or_default x ''optuna'') [''optuna'', ''hyperopt'']
          else if algorithm = ''cmaes'' then assert_in (or_default x ''optuna'') [''optuna'']
          else if algorithm = ''atpe'' then assert_in (or_default x ''hyperopt'') [''hyperopt'']
          else if algorithm = ''random'' then
            assert_in (or_default x ''sklearn'') [''optuna'', ''hyperopt'', ''sklearn'']
          else if algorithm = ''grid'' then
            assert_in (or_default x ''sklearn'') [''sklearn'', ''optuna'']
          else if algorithm = ''bayes'' then Inr (or_default x ''skopt'')
          else Inl ValueError)"

subsection \<open>The constructor\<close>

text \<open>
  \<open>__init__\<close> checks the algorithm name against the table, runs the backend setter, then
  stores the parameter space, title, path and keyword arguments, and last selects the
  search function. The steps between the backend setter and the selection depend on the
  shape of the parameter space and on the file system; they are the parameter
  \<open>setup\<close>, which may raise.

  The objective enters by its kind: \<open>Sklearn_estimator\<close> when
  \<^verbatim>\<open>"sklearn" in str(type(self.objective_fn))\<close> holds, else \<open>Plain_callable\<close>. For an
  estimator the constructor builds \<open>RandomizedSearchCV\<close>, \<open>GridSearchCV\<close> or
  \<open>BayesSearchCV\<close> with the estimator, the space and the caller's keyword arguments;
  the function carried by \<open>Sklearn_estimator\<close> tells for each of these classes whether
  that call returns or raises.
  \<^verbatim>\<open>
  if self.use_sklearn:
      if self.algorithm == "random":
          self.optfn = RandomizedSearchCV(estimator=objective_fn,
                                          param_distributions=param_space, **kwargs)
      else:
          self.optfn = GridSearchCV(estimator=objective_fn, param_grid=param_space, **kwargs)
  elif self.use_skopt_bayes:
      self.optfn = BayesSearchCV(estimator=objective_fn, search_spaces=param_space, **kwargs)
  elif self.use_skopt_gpmin:
      self.fit = self.own_fit
  elif self.use_own:
      self.predict = self._predict and self.backend != 'optuna'
      if self.algorithm == "grid" and self.backend != 'optuna':
          self.fit = self.grid_search
      elif self.algorithm == 'random' and self.backend not in ['optuna', 'hyperopt']:
          self.fit = self.random_search
      elif self.backend == 'hyperopt':
          self.fit = self.fmin
      elif self.backend == 'optuna':
          self.fit = self.optuna_objective
  else:
      raise NotImplementedError(...)
  \<close>
\<close>

datatype search_fn =
    Optfn_RandomizedSearchCV
  | Optfn_GridSearchCV
  | Optfn_BayesSearchCV
  | Fit_own_fit
  | Fit_grid_search
  | Fit_random_search
  | Fit_fmin
  | Fit_optuna_objective
  | Fit_unassigned

datatype objective_kind =
    Plain_callable
  | Sklearn_estimator "search_fn \<Rightarrow> error + unit"

definition is_sklearn :: "objective_kind \<Rightarrow> bool" where
  "is_sklearn sk = (case sk of Plain_callable \<Rightarrow> False | Sklearn_estimator _ \<Rightarrow> True)"

definition search_cv :: "objective_kind \<Rightarrow> search_fn \<Rightarrow> error + search_fn" where
  "search_cv sk f =
     (case sk of
        Plain_callable \<Rightarrow> Inr f
      | Sklearn_estimator build \<Rightarrow> (case build f of Inl e \<Rightarrow> Inl e | Inr _ \<Rightarrow> Inr f))"

text \<open>The search class that the constructor builds for this algorithm and objective, if
  it builds one, accepts the call.\<close>

definition accepts_kwargs :: "string \<Rightarrow> objective_kind \<Rightarrow> bool" where
  "accepts_kwargs algorithm sk =
     (case sk of
        Plain_callable \<Rightarrow> True
      | Sklearn_estimator build \<Rightarrow>
          if algorithm = ''random'' then build Optfn_RandomizedSearchCV = Inr ()
          else if algorithm = ''grid'' then build Optfn_GridSearchCV = Inr ()
          else if algorithm = ''bayes'' then build Optfn_BayesSearchCV = Inr ()
          else True)"

definition use_sklearn :: "string \<Rightarrow> objective_kind \<Rightarrow> bool" where
  "use_sklearn algorithm sk \<longleftrightarrow> algorithm \<in> set [''random'', ''grid''] \<and> is_sklearn sk"

definition use_skopt_bayes :: "string \<Rightarrow> objective_kind \<Rightarrow> bool" where
  "use_skopt_bayes algorithm sk \<longleftrightarrow> algorithm = ''bayes'' \<and> is_sklearn sk"

definition use_skopt_gpmin :: "string \<Rightarrow> objective_kind \<Rightarrow> bool" where
  "use_skopt_gpmin algorithm sk \<longleftrightarrow> algorithm = ''bayes'' \<and> \<not> is_sklearn sk"

definition use_own :: "string \<Rightarrow> objective_kind \<Rightarrow> bool" where
  "use_own algorithm sk \<longleftrightarrow>
     \<not> use_sklearn algorithm sk \<and> \<not> use_skopt_bayes algorithm sk \<and> \<not> use_skopt_gpmin algorithm sk"

definition select_search :: "string \<Rightarrow> string \<Rightarrow> objective_kind \<Rightarrow> error + search_fn" where
  "select_search algorithm b sk =
     (if use_sklearn algorithm sk then
        (if algorithm = ''random'' then search_cv sk Optfn_RandomizedSearchCV
         else search_cv sk Optfn_GridSearchCV)
      else if use_skopt_bayes algorithm sk then search_cv sk Optfn_BayesSearchCV
      else if use_skopt_gpmin algorithm sk then Inr Fit_own_fit
      else if use_own algorithm sk then
        (if algorithm = ''grid'' \<and> b \<noteq> ''optuna'' then Inr Fit_grid_search
         else if algorithm = ''random'' \<and> b \<notin> set [''optuna'', ''hyperopt''] then Inr Fit_random_search
         else if b = ''hyperopt'' then Inr Fit_fmin
         else if b = ''optuna'' then Inr Fit_optuna_objective
         else Inr Fit_unassigned)
      else Inl NotImplementedError)"

definition HyperOpt_init ::
  "(string \<Rightarrow> string \<Rightarrow> error + unit) \<Rightarrow> string \<Rightarrow> objective_kind \<Rightarrow> string option
     \<Rightarrow> error + (string \<times> search_fn)" where
  "HyperOpt_init setup algorithm sk x =
     (if algorithm \<notin> set (map fst ALGORITHMS) then Inl ValueError
      else case backend_setter algorithm x of
             Inl e \<Rightarrow> Inl e
           | Inr b \<Rightarrow>
               (case setup algorithm b of
                  Inl e \<Rightarrow> Inl e
                | Inr _ \<Rightarrow>
                    (case select_search algorithm b sk of
                       Inl e \<Rightarrow> Inl e
                     | Inr f \<Rightarrow> Inr (b, f))))"

subsection \<open>Values, dictionaries and rounding\<close>

text \<open>Python values that occur as parameter values. A \<open>bool\<close> is an \<open>int\<close> in
  Python (\<open>isinstance(True, int)\<close> holds) and is represented by \<open>PInt\<close>; \<open>PNone\<close>
  stands for \<open>None\<close>.\<close>

datatype pyval = PInt int | PFloat real | PStr string | PNone

type_synonym params = "(string \<times> pyval) list"

text \<open>A Python \<open>dict\<close> keeps its keys in insertion order; it is an association list with
  distinct keys. \<open>d[k] = v\<close> replaces the value of an existing key in place and appends
  a new key at the end.\<close>

fun dict_set :: "('k \<times> 'v) list \<Rightarrow> 'k \<Rightarrow> 'v \<Rightarrow> ('k \<times> 'v) list" where
  "dict_set [] k v = [(k, v)]"
| "dict_set ((k', v') # d) k v = (if k' = k then (k, v) # d else (k', v') # dict_set d k v)"

text \<open>\<open>round(x, n)\<close> on a float: to the nearest multiple of \<open>10^-n\<close>, a tie to the even
  one.\<close>

definition py_round :: "real \<Rightarrow> nat \<Rightarrow> real" where
  "py_round x n =
     (let s = x * 10 ^ n; f = \<lfloor>s\<rfloor>; d = s - of_int f
      in of_int (if d < 1 / 2 then f else if 1 / 2 < d then f + 1
                 else if even f then f else f + 1) / 10 ^ n)"

text \<open>Modelled from the spec: \<open>sort_x_iters\<close> of \<^verbatim>\<open>dl4seq/hyper_opt/utils.py\<close> is not
  among the sources. A record of a trial is "written in canonical parameter order": the
  function builds a new dictionary with the entries of \<open>x_iter\<close> in the order of
  \<open>original_order\<close>; a name that \<open>x_iter\<close> lacks raises \<open>KeyError\<close>.\<close>

fun sort_x_iters_loop :: "params \<Rightarrow> string list \<Rightarrow> params \<Rightarrow> error + params" where
  "sort_x_iters_loop x_iter [] new_x_iter = Inr new_x_iter"
| "sort_x_iters_loop x_iter (s # order) new_x_iter =
     (case map_of x_iter s of
        None \<Rightarrow> Inl (KeyError s)
      | Some v \<Rightarrow> sort_x_iters_loop x_iter order (dict_set new_x_iter s v))"

definition sort_x_iters :: "params \<Rightarrow> string list \<Rightarrow> error + params" where
  "sort_x_iters x_iter original_order = sort_x_iters_loop x_iter original_order []"

subsection \<open>A dimension from a literal list\<close>

text \<open>
  \<^verbatim>\<open>
  def space_from_list(v:list, k:str)->Dimension:
      if len(v) > 2:
          if isinstance(v[0], int):
              s = Integer(grid=v, name=k)
          elif isinstance(v[0], float):
              s = Real(grid=v, name=k)
          else:
              s = Categorical(v, name=k)
      else:
          if isinstance(v[0], int):
              s = Integer(low=np.min(v), high=np.max(v), name=k)
          elif isinstance(v[0], float):
              s = Real(low=np.min(v), high=np.max(v), name=k)
          elif isinstance(v[0], str):
              s = Categorical(v, name=k)
          else:
              raise NotImplementedError
      return s
  \<close>
  The classes \<open>Integer\<close>, \<open>Real\<close> and \<open>Categorical\<close> are those of
  \<^verbatim>\<open>dl4seq/hyper_opt/utils.py\<close>, which is not among the sources, and \<open>np.min\<close>,
  \<open>np.max\<close> are numpy's; \<open>Space_of\<close> is the call \<open>Space(dimensions)\<close> of skopt, used
  by \<open>skopt_space\<close>. They are the fields of a \<open>library\<close>: each call returns a value
  or raises. A \<open>dimension\<close> is the object a constructor returns, named after the
  call that made it.
\<close>

datatype dimension =
    Integer_grid "pyval list" string
  | Real_grid "pyval list" string
  | Categorical "pyval list" string
  | Integer_range pyval pyval string
  | Real_range pyval pyval string

record library =
  np_min :: "pyval list \<Rightarrow> error + pyval"
  np_max :: "pyval list \<Rightarrow> error + pyval"
  Integer_low_high :: "pyval \<Rightarrow> pyval \<Rightarrow> string \<Rightarrow> error + dimension"
  Real_low_high :: "pyval \<Rightarrow> pyval \<Rightarrow> string \<Rightarrow> error + dimension"
  Integer_of_grid :: "pyval list \<Rightarrow> string \<Rightarrow> error + dimension"
  Real_of_grid :: "pyval list \<Rightarrow> string \<Rightarrow> error + dimension"
  Categorical_of :: "pyval list \<Rightarrow> string \<Rightarrow> error + dimension"
  Space_of :: "dimension list \<Rightarrow> error + unit"

text \<open>The two arguments \<open>low=np.min(v)\<close> and \<open>high=np.max(v)\<close>, evaluated in this
  order.\<close>

definition low_high :: "library \<Rightarrow> pyval list \<Rightarrow> error + (pyval \<times> pyval)" where
  "low_high lib v =
     (case np_min lib v of
        Inl e \<Rightarrow> Inl e
      | Inr lo \<Rightarrow> (case np_max lib v of Inl e \<Rightarrow> Inl e | Inr hi \<Rightarrow> Inr (lo, hi)))"

definition space_from_list :: "library \<Rightarrow> pyval list \<Rightarrow> string \<Rightarrow> error + dimension" where
  "space_from_list lib v k =
     (if length v > 2 then
        (case hd v of
           PInt _ \<Rightarrow> Integer_of_grid lib v k
         | PFloat _ \<Rightarrow> Real_of_grid lib v k
         | _ \<Rightarrow> Categorical_of lib v k)
      else
        (case v of
           [] \<Rightarrow> Inl IndexError
         | PInt _ # _ \<Rightarrow>
             (case low_high lib v of
                Inl e \<Rightarrow> Inl e
              | Inr (lo, hi) \<Rightarrow> Integer_low_high lib lo hi k)
         | PFloat _ # _ \<Rightarrow>
             (case low_high lib v of
                Inl e \<Rightarrow> Inl e
              | Inr (lo, hi) \<Rightarrow> Real_low_high lib lo hi k)
         | PStr _ # _ \<Rightarrow> Categorical_of lib v k
         | PNone # _ \<Rightarrow> Inl NotImplementedError))"

subsection \<open>The objective and the state of a search\<close>

text \<open>
  An objective is a Python callable. \<open>argspec_varkw\<close> is the outcome of
  \<^verbatim>\<open>inspect.getfullargspec(self.objective_fn).varkw\<close>: the name of the \<open>**kwargs\<close>
  parameter, \<open>None\<close>, or the \<open>TypeError\<close> that \<open>getfullargspec\<close> raises for a callable
  without a signature. \<open>call_kw\<close> is the call \<open>objective_fn(**para)\<close>, \<open>call_pos\<close> the
  call \<open>objective_fn(*args)\<close> and \<open>call_dict\<close> the call \<open>objective_fn(x)\<close> with the
  dictionary \<open>x\<close> as the one argument; each returns a number or raises, and a signature
  mismatch is a \<open>TypeError\<close> of the call. \<open>fn_name\<close> is the name Python prints for the
  callable.

  The state of a search holds what \<open>__init__\<close> stored and what the loop changes:
  \<^item> \<open>model_mse\<close> stands for building, fitting and scoring a dl4seq \<open>Model\<close> inside
    \<open>dl4seq_model\<close>;
  \<^item> \<open>param_space\<close> is the dictionary from names to lists of values that the setter
    stored; \<open>original_dimensions\<close> is the list of \<open>Dimension\<close> objects when the caller
    gave one, from whose names and grids the setter built that dictionary, and \<open>None\<close>
    when the caller gave the dictionary itself (\<open>original_space\<close> is then that
    dictionary);
  \<^item> \<open>save_iterations\<close> stands for \<open>save_iterations_as_xy\<close> (\<open>Jsonize\<close> and the writing
    of two files) and \<open>draw_plots\<close> for the plotting calls of \<open>_plot\<close>; both are given
    the result store.
\<close>

record objective =
  fn_name :: string
  argspec_varkw :: "error + string option"
  call_kw :: "params \<Rightarrow> error + real"
  call_pos :: "pyval list \<Rightarrow> error + real"
  call_dict :: "params \<Rightarrow> error + real"

record hyper_opt =
  use_dl4seq_model :: bool
  objective_fn :: objective
  model_mse :: "params \<Rightarrow> error + real"
  param_space :: "(string \<times> pyval list) list"
  original_dimensions :: "dimension list option"
  eval_on_best :: bool
  lib :: library
  save_iterations :: "(real \<times> params) list \<Rightarrow> error + unit"
  draw_plots :: "(real \<times> params) list \<Rightarrow> error + unit"
  results :: "(real \<times> params) list"

text \<open>
  \<^verbatim>\<open>
  @property
  def use_named_args(self):
      if self.use_dl4seq_model:
          return True
      argspec = inspect.getfullargspec(self.objective_fn)
      if argspec.varkw is None:
          return False
      elif isinstance(argspec.varkw, str):
          return True
      else:
          raise NotImplementedError
  \<close>
\<close>

definition use_named_args :: "hyper_opt \<Rightarrow> error + bool" where
  "use_named_args h =
     (if use_dl4seq_model h then Inr True
      else case argspec_varkw (objective_fn h) of
             Inl e \<Rightarrow> Inl e
           | Inr None \<Rightarrow> Inr False
           | Inr (Some _) \<Rightarrow> Inr True)"

text \<open>\<open>original_para_order\<close>: the parameter space of these searches is a dictionary, and
  the order is that of its keys.\<close>

definition original_para_order :: "hyper_opt \<Rightarrow> string list" where
  "original_para_order h = map fst (param_space h)"

text \<open>\<open>dl4seq_model(**kwargs)\<close>: fits a model, rounds its error to 7 places, records it
  under that error and returns it.\<close>

definition dl4seq_model :: "hyper_opt \<Rightarrow> params \<Rightarrow> error + (real \<times> hyper_opt)" where
  "dl4seq_model h kwargs =
     (case model_mse h kwargs of
        Inl e \<Rightarrow> Inl e
      | Inr mse \<Rightarrow>
          (let error = py_round mse 7
           in case sort_x_iters kwargs (original_para_order h) of
                Inl e \<Rightarrow> Inl e
              | Inr sorted_kwargs \<Rightarrow>
                  Inr (error, h\<lparr>results := dict_set (results h) error sorted_kwargs\<rparr>)))"

subsection \<open>The evaluation loop\<close>

text \<open>
  \<^verbatim>\<open>
  def eval_sequence(self, params):
      print(f"total number of iterations: {len(params)}")
      for idx, para in enumerate(params):
          if self.use_dl4seq_model:
              err = self.dl4seq_model(**para)
          elif self.use_named_args:
              err = self.objective_fn(**para)
          else:
              try:
                  err = self.objective_fn(*list(para.values()))
              except TypeError:
                  raise TypeError(f"""
                      use_named_args argument is set to {self.use_named_args}. If your
                      objective function takes key word arguments, make sure that
                      this argument is set to True during initiatiation of HyperOpt.""")
          err = round(err, 8)
          if not self.use_dl4seq_model:
              self.results[err + idx] = sort_x_iters(para, self.original_para_order())
      self._plot()
      if self.eval_on_best:
          self.eval_with_best()
      return self.results
  \<close>
  \<open>call_objective\<close> is the first statement of the loop body, \<open>eval_one\<close> the whole
  body, \<open>eval_loop\<close> the loop. Besides the state, the loop returns the list of the
  parameter sets it evaluated with their rounded objective values, in the order of
  evaluation. The message of the \<open>TypeError\<close> starts with a line break, and each of its
  three lines is indented by 24 spaces.
\<close>

definition named_args_message :: string where
  "named_args_message =
     CHR 0x0A # replicate 24 (CHR '' '') @ ''use_named_args argument is set to False. If your''
     @ CHR 0x0A # replicate 24 (CHR '' '')
     @ ''objective function takes key word arguments, make sure that''
     @ CHR 0x0A # replicate 24 (CHR '' '')
     @ ''this argument is set to True during initiatiation of HyperOpt.''"

definition call_objective :: "hyper_opt \<Rightarrow> params \<Rightarrow> error + (real \<times> hyper_opt)" where
  "call_objective h para =
     (if use_dl4seq_model h then dl4seq_model h para
      else case use_named_args h of
             Inl e \<Rightarrow> Inl e
           | Inr True \<Rightarrow>
               (case call_kw (objective_fn h) para of
                  Inl e \<Rightarrow> Inl e
                | Inr err \<Rightarrow> Inr (err, h))
           | Inr False \<Rightarrow>
               (case call_pos (objective_fn h) (map snd para) of
                  Inl (TypeError m) \<Rightarrow> Inl (TypeError named_args_message)
                | Inl e \<Rightarrow> Inl e
                | Inr err \<Rightarrow> Inr (err, h)))"

definition eval_one :: "hyper_opt \<Rightarrow> nat \<Rightarrow> params \<Rightarrow> error + (real \<times> hyper_opt)" where
  "eval_one h idx para =
     (case call_objective h para of
        Inl e \<Rightarrow> Inl e
      | Inr (err0, h1) \<Rightarrow>
          (let err = py_round err0 8
           in if \<not> use_dl4seq_model h1 then
                (case sort_x_iters para (original_para_order h1) of
                   Inl e \<Rightarrow> Inl e
                 | Inr x \<Rightarrow> Inr (err, h1\<lparr>results := dict_set (results h1) (err + real idx) x\<rparr>))
              else Inr (err, h1)))"

fun eval_loop ::
  "hyper_opt \<Rightarrow> nat \<Rightarrow> params list \<Rightarrow> (params \<times> real) list
     \<Rightarrow> error + ((params \<times> real) list \<times> hyper_opt)" where
  "eval_loop h idx [] evaluated = Inr (evaluated, h)"
| "eval_loop h idx (para # rest) evaluated =
     (case eval_one h idx para of
        Inl e \<Rightarrow> Inl e
      | Inr (err, h1) \<Rightarrow> eval_loop h1 (Suc idx) rest (evaluated @ [(para, err)]))"

subsection \<open>The best trial\<close>

text \<open>
  The last branch of \<open>best_paras\<close>, taken by the searches of \<open>eval_sequence\<close> (the other
  branches read the result objects of skopt, hyperopt and optuna):
  \<^verbatim>\<open>
  best_y = list(sorted(self.results.keys()))[0]
  paras = sort_x_iters(self.results[best_y], list(self.param_space.keys()))
  \<close>
\<close>

definition best_paras :: "hyper_opt \<Rightarrow> error + params" where
  "best_paras h =
     (case sort (map fst (results h)) of
        [] \<Rightarrow> Inl IndexError
      | best_y # _ \<Rightarrow>
          (case map_of (results h) best_y of
             None \<Rightarrow> Inl (KeyError [])
           | Some x \<Rightarrow> sort_x_iters x (map fst (param_space h))))"

subsection \<open>After the loop\<close>

text \<open>
  The searches that \<open>__init__\<close> binds to \<open>eval_sequence\<close> have the backend \<open>sklearn\<close>.
  For that backend \<open>xy_of_iterations()\<close> is the result store and \<open>func_vals()\<close> an array
  of its keys, and \<open>_plot\<close> is
  \<^verbatim>\<open>
  self.save_iterations_as_xy()
  sr = self.skopt_results()
  ...                               # calls into matplotlib, skopt.plots, plotly
  plot_evaluations(sr, dimensions=self.best_paras(as_list=True))
  ...
  self.plot_importance(raise_error=False)
  \<close>
  where \<open>skopt_results()\<close> evaluates \<open>self.skopt_space()\<close> and then \<open>self.best_paras()\<close>.
  For a space given as a dictionary of lists \<open>skopt_space\<close> is
  \<^verbatim>\<open>
  space_ = []
  for k,v in x.items():
      if isinstance(v, list):
          s = space_from_list(v, k)
      ...
      space_.append(s)
  _space = Space(space_) if len(space_)>0 else None
  \<close>
  and for a list of \<open>Dimension\<close> objects it is \<open>Space(x)\<close>.
\<close>

fun skopt_space_loop ::
  "library \<Rightarrow> (string \<times> pyval list) list \<Rightarrow> dimension list \<Rightarrow> error + dimension list" where
  "skopt_space_loop l [] dims = Inr dims"
| "skopt_space_loop l ((k, v) # items) dims =
     (case space_from_list l v k of
        Inl e \<Rightarrow> Inl e
      | Inr s \<Rightarrow> skopt_space_loop l items (dims @ [s]))"

definition skopt_space :: "hyper_opt \<Rightarrow> error + unit" where
  "skopt_space h =
     (case original_dimensions h of
        Some x \<Rightarrow> Space_of (lib h) x
      | None \<Rightarrow>
          (case skopt_space_loop (lib h) (param_space h) [] of
             Inl e \<Rightarrow> Inl e
           | Inr dims \<Rightarrow> if length dims > 0 then Space_of (lib h) dims else Inr ()))"

definition HyperOpt_plot :: "hyper_opt \<Rightarrow> error + unit" where
  "HyperOpt_plot h =
     (case save_iterations h (results h) of
        Inl e \<Rightarrow> Inl e
      | Inr _ \<Rightarrow>
          (case skopt_space h of
             Inl e \<Rightarrow> Inl e
           | Inr _ \<Rightarrow>
               (case best_paras h of
                  Inl e \<Rightarrow> Inl e
                | Inr _ \<Rightarrow> draw_plots h (results h))))"

text \<open>
  \<^verbatim>\<open>
  def eval_with_best(self, view_model=True, return_model=False):
      if self.use_named_args:
          x = self.best_paras(True)
      else:
          x = self.best_paras(False)
      if self.use_named_args and self.dl4seq_args is not None:
          return self.dl4seq_model(pp=True, view_model=view_model,
                                   return_model=return_model,
                                   title=os.path.join(self.opt_path, "best"), **x)
      if self.use_named_args and self.dl4seq_args is None:
          return self.objective_fn(**x)
      if callable(self.objective_fn) and not self.use_named_args:
          return self.objective_fn(x)
      raise NotImplementedError
  \<close>
  With named arguments \<open>x\<close> is a list, and \<open>**x\<close> makes the interpreter raise
  \<open>TypeError\<close> before the call (the text is that of CPython 3.8). \<open>dl4seq_args\<close> is
  set exactly when \<open>use_dl4seq_model\<close> is.
\<close>

definition not_a_mapping :: "string \<Rightarrow> string" where
  "not_a_mapping callee = callee @ ''() argument after ** must be a mapping, not list''"

definition eval_with_best :: "hyper_opt \<Rightarrow> error + unit" where
  "eval_with_best h =
     (case use_named_args h of
        Inl e \<Rightarrow> Inl e
      | Inr True \<Rightarrow>
          (case best_paras h of
             Inl e \<Rightarrow> Inl e
           | Inr _ \<Rightarrow>
               if use_dl4seq_model h then Inl (TypeError (not_a_mapping ''dl4seq_model''))
               else Inl (TypeError (not_a_mapping (fn_name (objective_fn h)))))
      | Inr False \<Rightarrow>
          (case best_paras h of
             Inl e \<Rightarrow> Inl e
           | Inr x \<Rightarrow>
               (case call_dict (objective_fn h) x of
                  Inl e \<Rightarrow> Inl e
                | Inr _ \<Rightarrow> Inr ())))"

definition eval_sequence ::
  "hyper_opt \<Rightarrow> params list \<Rightarrow> error + ((params \<times> real) list \<times> hyper_opt)" where
  "eval_sequence h params =
     (case eval_loop h 0 params [] of
        Inl e \<Rightarrow> Inl e
      | Inr (evaluated, h1) \<Rightarrow>
          (case HyperOpt_plot h1 of
             Inl e \<Rightarrow> Inl e
           | Inr _ \<Rightarrow>
               if eval_on_best h1 then
                 (case eval_with_best h1 of
                    Inl e \<Rightarrow> Inl e
                  | Inr _ \<Rightarrow> Inr (evaluated, h1))
               else Inr (evaluated, h1)))"

subsection \<open>Grid search\<close>

text \<open>
  \<open>grid_search\<close> is \<^verbatim>\<open>self.eval_sequence(list(ParameterGrid(self.param_space)))\<close>.
  \<open>ParameterGrid\<close> is scikit-learn's: it refuses an empty list of values with
  \<open>ValueError\<close>; iterating it sorts the items of the dictionary by key
  (\<^verbatim>\<open>items = sorted(p.items())\<close>) and yields \<^verbatim>\<open>dict(zip(keys, v))\<close> for
  \<^verbatim>\<open>v in itertools.product(*values)\<close>, whose last factor varies fastest.
\<close>

definition grid_points :: "(string \<times> pyval list) list \<Rightarrow> params list" where
  "grid_points items = map (zip (map fst items)) (product_lists (map snd items))"

definition ParameterGrid :: "(string \<times> pyval list) list \<Rightarrow> error + params list" where
  "ParameterGrid p =
     (if [] \<in> set (map snd p) then Inl ValueError
      else (let items = sort_key fst p in Inr (grid_points items)))"

definition grid_search :: "hyper_opt \<Rightarrow> error + ((params \<times> real) list \<times> hyper_opt)" where
  "grid_search h =
     (case ParameterGrid (param_space h) of
        Inl e \<Rightarrow> Inl e
      | Inr params \<Rightarrow> eval_sequence h params)"


text \<open>What the objective answers at a parameter set: the value that the first statement
  of the loop body binds to \<open>err\<close>, or what it raises.\<close>

definition objective_value :: "hyper_opt \<Rightarrow> params \<Rightarrow> error + real" where
  "objective_value h para =
     (case call_objective h para of Inl e \<Rightarrow> Inl e | Inr (err, _) \<Rightarrow> Inr err)"

text \<open>Two states of a search that differ at most in the result store.\<close>

definition same_config :: "hyper_opt \<Rightarrow> hyper_opt \<Rightarrow> bool" where
  "same_config h h1 \<longleftrightarrow>
     use_dl4seq_model h1 = use_dl4seq_model h \<and> objective_fn h1 = objective_fn h \<and>
     model_mse h1 = model_mse h \<and> param_space h1 = param_space h \<and>
     original_dimensions h1 = original_dimensions h \<and> eval_on_best h1 = eval_on_best h \<and>
     lib h1 = lib h \<and> save_iterations h1 = save_iterations h \<and>
     draw_plots h1 = draw_plots h"

text \<open>The records of a store hold every parameter of the space.\<close>

definition complete_records :: "hyper_opt \<Rightarrow> bool" where
  "complete_records h \<longleftrightarrow>
     list_all (\<lambda>kx. set (original_para_order h) \<subseteq> fst ` set (snd kx)) (results h)"

text \<open>The positional arguments the specification describes, for comparison:
  \<^verbatim>\<open>[parameters[name] for name in canonical_order]\<close>.\<close>

fun canonical_args :: "params \<Rightarrow> string list \<Rightarrow> error + pyval list" where
  "canonical_args parameters [] = Inr []"
| "canonical_args parameters (n # canonical_order) =
     (case map_of parameters n of
        None \<Rightarrow> Inl (KeyError n)
      | Some v \<Rightarrow>
          (case canonical_args parameters canonical_order of
             Inl e \<Rightarrow> Inl e
           | Inr vs \<Rightarrow> Inr (v # vs)))"

subsection \<open>Attribute lookup\<close>

text \<open>
  \<^verbatim>\<open>
  def __getattr__(self, item):
      if hasattr(self.optfn, item):
          return getattr(self.optfn, item)
      else:
          raise AttributeError(f"Attribute {item} not found")
  \<close>
  Python evaluates \<open>self.item\<close> by the normal lookup (the dictionary of the instance,
  then the names of the class and of \<open>object\<close>) and calls \<open>__getattr__\<close> only when
  that finds nothing. Inside \<open>__getattr__\<close> the expression \<open>self.optfn\<close> is such a
  lookup again. The interpreter bounds the depth of calls (\<open>sys.getrecursionlimit()\<close>,
  1000 unless changed): \<open>depth\<close> is the number of calls of \<open>__getattr__\<close> that may still
  be entered, and entering one more raises \<open>RecursionError\<close>. An object is given by the
  names in its dictionary, by what \<open>hasattr(self.optfn, item)\<close> answers once \<open>optfn\<close>
  exists, and by whether the interpreter is Python 3.11 or later, where \<open>object\<close> has
  the name \<open>__getstate__\<close> in addition.
\<close>

record hyperopt_obj =
  inst_dict :: "string list"
  optfn_hasattr :: "string \<Rightarrow> bool"
  python_3_11 :: bool

datatype attr = Own_attr string | Optfn_attr string

definition HyperOpt_names :: "string list" where
  "HyperOpt_names =
     [''__init__'', ''backend'', ''title'', ''check_args'', ''__getattr__'', ''param_space'',
      ''skopt_space'', ''space'', ''use_sklearn'', ''use_skopt_bayes'', ''use_skopt_gpmin'',
      ''use_tpe'', ''use_own'', ''random_state'', ''num_iterations'', ''use_named_args'',
      ''opt_path'', ''best_paras'', ''dl4seq_model'', ''original_para_order'', ''dims'',
      ''model_for_gpmin'', ''own_fit'', ''eval_sequence'', ''grid_search'', ''random_search'',
      ''optuna_objective'', ''fmin'', ''_predict'', ''hp_space'', ''xy_of_iterations'',
      ''func_vals'', ''skopt_results'', ''best_xy'', ''_plot'', ''plot_importance'', ''to_kw'',
      ''eval_with_best'', ''from_gp_parameters'', ''pre_calculated_results'', ''optuna_study'',
      ''save_iterations_as_xy'']"

definition object_names :: "bool \<Rightarrow> string list" where
  "object_names since_3_11 =
     [''__class__'', ''__delattr__'', ''__dict__'', ''__dir__'', ''__doc__'', ''__eq__'',
      ''__format__'', ''__ge__'', ''__getattribute__'', ''__gt__'', ''__hash__'',
      ''__init_subclass__'', ''__le__'', ''__lt__'', ''__module__'', ''__ne__'', ''__new__'',
      ''__reduce__'', ''__reduce_ex__'', ''__repr__'', ''__setattr__'', ''__sizeof__'',
      ''__str__'', ''__subclasshook__'', ''__weakref__'']
     @ (if since_3_11 then [''__getstate__''] else [])"

definition found_normally :: "hyperopt_obj \<Rightarrow> string \<Rightarrow> bool" where
  "found_normally self item \<longleftrightarrow>
     item \<in> set (inst_dict self) \<or> item \<in> set HyperOpt_names \<or>
     item \<in> set (object_names (python_3_11 self))"

fun lookup :: "nat \<Rightarrow> hyperopt_obj \<Rightarrow> string \<Rightarrow> error + attr" where
  "lookup 0 self item =
     (if found_normally self item then Inr (Own_attr item) else Inl RecursionError)"
| "lookup (Suc depth) self item =
     (if found_normally self item then Inr (Own_attr item)
      else
        (case lookup depth self ''optfn'' of
           Inl e \<Rightarrow> Inl e
         | Inr _ \<Rightarrow>
             if optfn_hasattr self item then
               (case lookup depth self ''optfn'' of
                  Inl e \<Rightarrow> Inl e
                | Inr _ \<Rightarrow> Inr (Optfn_attr item))
             else Inl (AttributeError (''Attribute '' @ item @ '' not found''))))"

text \<open>The names \<open>__init__\<close> has put into the dictionary of the instance when it returns,
  in the order of assignment; \<open>dl4seq\<close> tells whether \<open>dl4seq_args\<close> was among the
  keyword arguments.\<close>

definition init_dict :: "bool \<Rightarrow> search_fn \<Rightarrow> string list" where
  "init_dict dl4seq f =
     [''objective_fn'', ''algorithm'', ''_backend'', ''_param_space'', ''original_space'',
      ''dl4seq_args'', ''_title'', ''results'', ''gpmin_results'', ''data'', ''eval_on_best'',
      ''_opt_path'', ''use_dl4seq_model'']
     @ (if dl4seq then [''_model''] else [])
     @ [''gpmin_args'']
     @ (case f of
          Optfn_RandomizedSearchCV \<Rightarrow> [''optfn'']
        | Optfn_GridSearchCV \<Rightarrow> [''optfn'']
        | Optfn_BayesSearchCV \<Rightarrow> [''optfn'']
        | Fit_own_fit \<Rightarrow> [''fit'']
        | Fit_unassigned \<Rightarrow> [''predict'']
        | _ \<Rightarrow> [''predict'', ''fit''])"

subsection \<open>Reading saved records\<close>

text \<open>A parsed JSON document, as \<open>json.load\<close> returns it.\<close>

datatype json =
    JNull
  | JBool bool
  | JNum real
  | JStr string
  | JArr "json list"
  | JObj "(string \<times> json) list"

text \<open>\<open>j[key]\<close> for a string key: a dictionary without the key raises \<open>KeyError\<close>, any
  other value raises \<open>TypeError\<close>.\<close>

definition json_get :: "json \<Rightarrow> string \<Rightarrow> error + json" where
  "json_get j key =
     (case j of
        JObj members \<Rightarrow> (case map_of members key of None \<Rightarrow> Inl (KeyError key) | Some v \<Rightarrow> Inr v)
      | _ \<Rightarrow> Inl (TypeError []))"

text \<open>
  \<^verbatim>\<open>
  @classmethod
  def from_gp_parameters(cls, fpath:str, objective_fn):
      opt_path = os.path.dirname(fpath)
      with open(fpath, 'r') as fp:
          gpmin_results = json.load(fp)
      space = gpmin_results['space']
      spaces = []
      for sp_name, sp_paras in space.items():
          if sp_paras['type'] ==  'Categorical':
              spaces.append(Categorical(sp_paras['categories'], name=sp_name))
          elif sp_paras['type'] == 'Integer':
              spaces.append(Integer(low=sp_paras['low'], high=sp_paras['high'],
                                    name=sp_name, prior=sp_paras['prior']))
          elif sp_paras['type'] == 'Real':
              spaces.append(Real(low=sp_paras['low'], high=sp_paras['high'],
                                 name=sp_name, prior=sp_paras['prior']))
          else:
              raise NotImplementedError
      optimizer = cls('bayes', param_space=spaces, objective_fn=objective_fn,
                      opt_path=opt_path, backend='skopt')
      optimizer.gpmin_results = gpmin_results
      return optimizer
  \<close>
  The function is given the parsed content of the file. A \<open>loaded_dimension\<close> is the
  constructor call with its arguments (for the numeric kinds: low, high, name, prior).
\<close>

datatype loaded_dimension =
    Loaded_Categorical json string
  | Loaded_Integer json json string json
  | Loaded_Real json json string json

record loaded_optimizer =
  loaded_space :: "loaded_dimension list"
  loaded_backend :: string
  loaded_search :: search_fn
  gpmin_results :: json

definition load_numeric ::
  "(json \<Rightarrow> json \<Rightarrow> string \<Rightarrow> json \<Rightarrow> loaded_dimension) \<Rightarrow> string \<Rightarrow> json
     \<Rightarrow> error + loaded_dimension" where
  "load_numeric build sp_name sp_paras =
     (case json_get sp_paras ''low'' of
        Inl e \<Rightarrow> Inl e
      | Inr lo \<Rightarrow>
          (case json_get sp_paras ''high'' of
             Inl e \<Rightarrow> Inl e
           | Inr hi \<Rightarrow>
               (case json_get sp_paras ''prior'' of
                  Inl e \<Rightarrow> Inl e
                | Inr pr \<Rightarrow> Inr (build lo hi sp_name pr))))"

definition load_dimension :: "string \<Rightarrow> json \<Rightarrow> error + loaded_dimension" where
  "load_dimension sp_name sp_paras =
     (case json_get sp_paras ''type'' of
        Inl e \<Rightarrow> Inl e
      | Inr t \<Rightarrow>
          if t = JStr ''Categorical'' then
            (case json_get sp_paras ''categories'' of
               Inl e \<Rightarrow> Inl e
             | Inr c \<Rightarrow> Inr (Loaded_Categorical c sp_name))
          else if t = JStr ''Integer'' then load_numeric Loaded_Integer sp_name sp_paras
          else if t = JStr ''Real'' then load_numeric Loaded_Real sp_name sp_paras
          else Inl NotImplementedError)"

fun load_dimensions ::
  "(string \<times> json) list \<Rightarrow> loaded_dimension list \<Rightarrow> error + loaded_dimension list" where
  "load_dimensions [] spaces = Inr spaces"
| "load_dimensions ((sp_name, sp_paras) # items) spaces =
     (case load_dimension sp_name sp_paras of
        Inl e \<Rightarrow> Inl e
      | Inr d \<Rightarrow> load_dimensions items (spaces @ [d]))"

definition from_gp_parameters ::
  "(string \<Rightarrow> string \<Rightarrow> error + unit) \<Rightarrow> objective_kind \<Rightarrow> json
     \<Rightarrow> error + loaded_optimizer" where
  "from_gp_parameters setup sk loaded =
     (case json_get loaded ''space'' of
        Inl e \<Rightarrow> Inl e
      | Inr space \<Rightarrow>
          (case space of
             JObj items \<Rightarrow>
               (case load_dimensions items [] of
                  Inl e \<Rightarrow> Inl e
                | Inr spaces \<Rightarrow>
                    (case HyperOpt_init setup ''bayes'' sk (Some ''skopt'') of
                       Inl e \<Rightarrow> Inl e
                     | Inr (b, f) \<Rightarrow>
                         Inr \<lparr>loaded_space = spaces, loaded_backend = b, loaded_search = f,
                              gpmin_results = loaded\<rparr>))
           | _ \<Rightarrow> Inl (AttributeError ''items'')))"

text \<open>
  \<^verbatim>\<open>
  def pre_calculated_results(self, resutls, from_gp_parameters=True):
      """Loads the pre-calculated results i.e. x and y values which
       have been already evaluated."""
      with open(resutls, 'r') as fp:
          results = json.load(fp)
      return
  \<close>
  The loaded document is bound to a local name only; the object is as before.
\<close>

definition pre_calculated_results :: "hyper_opt \<Rightarrow> json \<Rightarrow> hyper_opt" where
  "pre_calculated_results h loaded = h"

subsection \<open>Example libraries and searches\<close>

text \<open>
  The reductions of the example library answer as numpy does on a list of integers of
  the \<open>int64\<close> range (the exact minimum or maximum, an integer) and on a list of numbers
  with a float among them (a float); a list with another kind of element is refused with
  \<open>TypeError\<close>. A list of integers outside that range, which numpy treats in several
  ways, is refused here as well; no example has one.
\<close>

fun as_ints :: "pyval list \<Rightarrow> int list option" where
  "as_ints [] = Some []"
| "as_ints (PInt i # v) = map_option (Cons i) (as_ints v)"
| "as_ints (_ # v) = None"

fun as_numbers :: "pyval list \<Rightarrow> real list option" where
  "as_numbers [] = Some []"
| "as_numbers (PInt i # v) = map_option (Cons (of_int i)) (as_numbers v)"
| "as_numbers (PFloat x # v) = map_option (Cons x) (as_numbers v)"
| "as_numbers (_ # v) = None"

definition int64_range :: "int \<Rightarrow> bool" where
  "int64_range i \<longleftrightarrow> - (2 ^ 63) \<le> i \<and> i < 2 ^ 63"

definition np_reduce ::
  "(int \<Rightarrow> int \<Rightarrow> int) \<Rightarrow> (real \<Rightarrow> real \<Rightarrow> real) \<Rightarrow> pyval list \<Rightarrow> error + pyval" where
  "np_reduce fi fr v =
     (if v = [] then Inl ValueError
      else case as_ints v of
             Some is \<Rightarrow>
               if list_all int64_range is then Inr (PInt (fold fi (tl is) (hd is)))
               else Inl (TypeError [])
           | None \<Rightarrow>
               (case as_numbers v of
                  Some xs \<Rightarrow> Inr (PFloat (fold fr (tl xs) (hd xs)))
                | None \<Rightarrow> Inl (TypeError [])))"

fun number_of :: "pyval \<Rightarrow> real option" where
  "number_of (PInt i) = Some (of_int i)"
| "number_of (PFloat x) = Some x"
| "number_of _ = None"

text \<open>Modelled from the spec: the classes \<open>Integer\<close>, \<open>Real\<close> and \<open>Categorical\<close> of
  \<^verbatim>\<open>dl4seq/hyper_opt/utils.py\<close> are not among the sources. A numeric dimension has
  \<open>low < high\<close>; the call \<open>Integer(low=lo, high=hi)\<close> or \<open>Real(low=lo, high=hi)\<close> that
  breaks this fails, with the \<open>ValueError\<close> of the dimensions of skopt that these
  classes extend.\<close>

definition checked_range ::
  "(pyval \<Rightarrow> pyval \<Rightarrow> string \<Rightarrow> dimension) \<Rightarrow> pyval \<Rightarrow> pyval \<Rightarrow> string \<Rightarrow> error + dimension" where
  "checked_range build lo hi k =
     (case (number_of lo, number_of hi) of
        (Some a, Some b) \<Rightarrow> if a < b then Inr (build lo hi k) else Inl ValueError
      | _ \<Rightarrow> Inl (TypeError []))"

text \<open>Modelled from the spec: a categorical dimension has a non-empty sequence of
  values, and a numeric dimension may carry an explicit grid instead of its bounds. The
  call \<open>Space(dimensions)\<close> of skopt returns for dimensions that were built.\<close>

definition checked_library :: library where
  "checked_library =
     \<lparr>np_min = np_reduce min min,
      np_max = np_reduce max max,
      Integer_low_high = checked_range Integer_range,
      Real_low_high = checked_range Real_range,
      Integer_of_grid = (\<lambda>v k. Inr (Integer_grid v k)),
      Real_of_grid = (\<lambda>v k. Inr (Real_grid v k)),
      Categorical_of = (\<lambda>v k. if v = [] then Inl ValueError else Inr (Categorical v k)),
      Space_of = (\<lambda>dims. Inr ())\<rparr>"

text \<open>An objective \<^verbatim>\<open>def f(**kwargs): return g(kwargs['x'])\<close> over one numeric
  parameter \<open>x\<close>; called with positional arguments it raises \<open>TypeError\<close>.\<close>

definition number_objective :: "(real \<Rightarrow> real) \<Rightarrow> objective" where
  "number_objective g =
     \<lparr>fn_name = ''f'',
      argspec_varkw = Inr (Some ''kwargs''),
      call_kw = (\<lambda>p. case map_of p ''x'' of
                         Some (PInt i) \<Rightarrow> Inr (g (of_int i))
                       | Some (PFloat r) \<Rightarrow> Inr (g r)
                       | Some _ \<Rightarrow> Inl (TypeError [])
                       | None \<Rightarrow> Inl (KeyError ''x'')),
      call_pos = (\<lambda>args. case args of [] \<Rightarrow> Inl (KeyError ''x'') | _ \<Rightarrow> Inl (TypeError [])),
      call_dict = (\<lambda>x. Inl (TypeError []))\<rparr>"

text \<open>An objective \<^verbatim>\<open>def f(b, a): return b - 2 * a\<close> without \<open>**kwargs\<close>.\<close>

definition two_positional :: objective where
  "two_positional =
     \<lparr>fn_name = ''f'',
      argspec_varkw = Inr None,
      call_kw = (\<lambda>p. case (map_of p ''b'', map_of p ''a'') of
                         (Some (PInt b), Some (PInt a)) \<Rightarrow>
                           if length p = 2 then Inr (of_int (b - 2 * a)) else Inl (TypeError [])
                       | _ \<Rightarrow> Inl (TypeError [])),
      call_pos = (\<lambda>args. case args of
                            [PInt b, PInt a] \<Rightarrow> Inr (of_int (b - 2 * a))
                          | _ \<Rightarrow> Inl (TypeError [])),
      call_dict = (\<lambda>x. Inl (TypeError []))\<rparr>"



text \<open>The state of a search of an external objective before its first trial: the space
  was given as a dictionary of lists, \<open>eval_on_best\<close> is not set, the store is empty as
  \<open>__init__\<close> leaves it, the library is the one above, and the files can be written
  and the plots drawn.\<close>

definition new_search :: "objective \<Rightarrow> (string \<times> pyval list) list \<Rightarrow> hyper_opt" where
  "new_search f space =
     \<lparr>use_dl4seq_model = False, objective_fn = f, model_mse = (\<lambda>_. Inl NotImplementedError),
      param_space = space, original_dimensions = None, eval_on_best = False,
      lib = checked_library, save_iterations = (\<lambda>_. Inr ()), draw_plots = (\<lambda>_. Inr ()),
      results = []\<rparr>"

text \<open>The content of \<^verbatim>\<open>iterations.json\<close> after the grid search of
  \<open>number_objective (\<lambda>x. x / 2)\<close> over \<open>x \<in> [1, 0]\<close>: \<open>json.dump\<close> writes the keys
  \<open>0.5\<close> and \<open>1.0\<close> of the result store as strings.\<close>

definition half_history :: json where
  "half_history =
     JObj [(''0.5'', JObj [(''x'', JNum 1)]), (''1.0'', JObj [(''x'', JNum 0)])]"

section \<open>Properties\<close>

subsection \<open>The backend resolver\<close>

lemma algorithm_names:
  "map fst ALGORITHMS =
     [''gp'', ''bayes'', ''forest'', ''gbrt'', ''tpe'', ''atpe'', ''random'', ''grid'', ''cmaes'']"
  by (simp add: ALGORITHMS_def)

lemma table_backends_simps:
  "table_backends ''gp'' = [''skopt'']"
  "table_backends ''bayes'' = []"
  "table_backends ''forest'' = [''skopt'']"
  "table_backends ''gbrt'' = [''skopt'']"
  "table_backends ''tpe'' = [''hyperopt'', ''optuna'']"
  "table_backends ''atpe'' = [''hyperopt'']"
  "table_backends ''random'' = [''sklearn'', ''optuna'', ''hyperopt'']"
  "table_backends ''grid'' = [''sklearn'', ''optuna'']"
  "table_backends ''cmaes'' = [''optuna'']"
  by (simp_all add: table_backends_def ALGORITHMS_def)

lemma setter_supplied:
  "backend_setter ''tpe'' (Some b) =
     (if b \<in> set [''hyperopt'', ''optuna''] then Inr b
      else Inl (AssertionError (if b \<in> set [''sklearn'', ''skopt''] then [] else backend_message b)))"
  "backend_setter ''atpe'' (Some b) =
     (if b = ''hyperopt'' then Inr b
      else Inl (AssertionError
                 (if b \<in> set [''optuna'', ''sklearn'', ''skopt''] then [] else backend_message b)))"
  "backend_setter ''random'' (Some b) =
     (if b \<in> set [''sklearn'', ''optuna'', ''hyperopt''] then Inr b
      else Inl (AssertionError (if b = ''skopt'' then [] else backend_message b)))"
  "backend_setter ''grid'' (Some b) =
     (if b \<in> set [''sklearn'', ''optuna''] then Inr b
      else Inl (AssertionError (if b \<in> set [''hyperopt'', ''skopt''] then [] else backend_message b)))"
  "backend_setter ''cmaes'' (Some b) =
     (if b = ''optuna'' then Inr b
      else Inl (AssertionError
                 (if b \<in> set [''hyperopt'', ''sklearn'', ''skopt''] then [] else backend_message b)))"
  by (simp_all add: backend_setter_def assert_in_def or_default_def)

lemma setter_unknown_algorithm:
  "a \<notin> set [''tpe'', ''cmaes'', ''atpe'', ''random'', ''grid'', ''bayes''] \<Longrightarrow>
   isl (backend_setter a x)"
  by (cases x) (simp_all add: backend_setter_def)

lemma search_cv_estimator:
  "(\<exists>g. search_cv (Sklearn_estimator build) f = Inr g) \<longleftrightarrow> build f = Inr ()"
  by (cases "build f") (simp_all add: search_cv_def)

lemma select_search_returns:
  "(\<exists>f. select_search a b sk = Inr f) \<longleftrightarrow> accepts_kwargs a sk"
proof (cases sk)
  case Plain_callable
  then show ?thesis
    by (simp add: select_search_def use_own_def use_sklearn_def use_skopt_bayes_def
        use_skopt_gpmin_def is_sklearn_def accepts_kwargs_def)
next
  case (Sklearn_estimator build)
  then show ?thesis
    by (simp add: select_search_def use_own_def use_sklearn_def use_skopt_bayes_def
        use_skopt_gpmin_def is_sklearn_def accepts_kwargs_def search_cv_estimator)
qed

lemma init_fails_with_setter:
  "a \<in> set (map fst ALGORITHMS) \<Longrightarrow> backend_setter a x = Inl e \<Longrightarrow>
   HyperOpt_init setup a sk x = Inl e"
  by (simp add: HyperOpt_init_def)

text \<open>
  Claim C2, as amended. For the algorithms \<open>tpe\<close>, \<open>atpe\<close>, \<open>random\<close>, \<open>grid\<close> and
  \<open>cmaes\<close> a supplied backend is accepted by the setter exactly when the table lists it
  for the algorithm. When the remaining set-up succeeds, construction then succeeds
  exactly when the search class that is built for an estimator of sklearn as objective
  (\<open>RandomizedSearchCV\<close> for \<open>random\<close>, \<open>GridSearchCV\<close> for \<open>grid\<close>) accepts the
  objective, the space and the keyword arguments of the caller; for a plain callable no
  such class is built. A backend outside the table's list makes
  the setter, and with it the constructor, fail with an \<open>AssertionError\<close>; its message
  is empty for one of the four known backends and names the backend otherwise.
\<close>

theorem backend_accepted_iff_in_table:
  assumes "a \<in> set [''tpe'', ''atpe'', ''random'', ''grid'', ''cmaes'']"
  shows "(b \<in> set (table_backends a) \<longrightarrow>
            backend_setter a (Some b) = Inr b \<and>
            (setup a b = Inr () \<longrightarrow>
               ((\<exists>f. HyperOpt_init setup a sk (Some b) = Inr (b, f)) \<longleftrightarrow>
                accepts_kwargs a sk))) \<and>
         (b \<notin> set (table_backends a) \<longrightarrow>
            (\<exists>m. backend_setter a (Some b) = Inl (AssertionError m) \<and>
                 HyperOpt_init setup a sk (Some b) = Inl (AssertionError m) \<and>
                 m = (if b \<in> set [''optuna'', ''hyperopt'', ''sklearn'', ''skopt''] then []
                      else backend_message b)))"
proof -
  have mem: "a \<in> set (map fst ALGORITHMS)"
    using assms by (auto simp: algorithm_names)
  have cases: "a = ''tpe'' \<or> a = ''atpe'' \<or> a = ''random'' \<or> a = ''grid'' \<or> a = ''cmaes''"
    using assms by simp
  have ok: "backend_setter a (Some b) = Inr b" if "b \<in> set (table_backends a)"
    using cases that by (auto simp: table_backends_simps setter_supplied)
  have bad: "backend_setter a (Some b) =
               Inl (AssertionError
                     (if b \<in> set [''optuna'', ''hyperopt'', ''sklearn'', ''skopt''] then []
                      else backend_message b))"
    if "b \<notin> set (table_backends a)"
    using cases that by (auto simp: table_backends_simps setter_supplied)
  have init_ok: "(\<exists>f. HyperOpt_init setup a sk (Some b) = Inr (b, f)) \<longleftrightarrow>
                   accepts_kwargs a sk"
    if st: "backend_setter a (Some b) = Inr b" and su: "setup a b = Inr ()"
  proof -
    have "(\<exists>f. HyperOpt_init setup a sk (Some b) = Inr (b, f)) \<longleftrightarrow>
            (\<exists>f. select_search a b sk = Inr f)"
      using st su mem by (cases "select_search a b sk") (simp_all add: HyperOpt_init_def)
    then show ?thesis
      by (simp add: select_search_returns)
  qed
  show ?thesis
    using ok bad init_ok init_fails_with_setter [OF mem] by blast
qed

theorem backend_accepted_iff_in_table_witness:
  "backend_setter ''grid'' (Some ''sklearn'') = Inr ''sklearn'' \<and>
   (\<exists>f. HyperOpt_init (\<lambda>_ _. Inr ()) ''grid'' (Sklearn_estimator (\<lambda>_. Inr ())) (Some ''sklearn'')
          = Inr (''sklearn'', f)) \<and>
   backend_setter ''grid'' (Some ''skopt'') = Inl (AssertionError []) \<and>
   HyperOpt_init (\<lambda>_ _. Inr ()) ''grid'' (Sklearn_estimator (\<lambda>_. Inr ())) (Some ''skopt'')
     = Inl (AssertionError [])"
  using backend_accepted_iff_in_table
          [of "''grid''" "''sklearn''" "\<lambda>_ _. Inr ()" "Sklearn_estimator (\<lambda>_. Inr ())"]
        backend_accepted_iff_in_table
          [of "''grid''" "''skopt''" "\<lambda>_ _. Inr ()" "Sklearn_estimator (\<lambda>_. Inr ())"]
  by (simp add: table_backends_simps accepts_kwargs_def)

text \<open>
  Claim C2 as stated fails in both directions: the table lists \<open>skopt\<close> for \<open>gp\<close>, yet
  construction with that pair raises \<open>ValueError\<close>; the table lists no backend for
  \<open>bayes\<close>, yet construction with \<open>bayes\<close> and \<open>optuna\<close> succeeds.
\<close>

theorem table_pair_counterexample:
  "''skopt'' \<in> set (table_backends ''gp'') \<and>
   HyperOpt_init (\<lambda>_ _. Inr ()) ''gp'' Plain_callable (Some ''skopt'') = Inl ValueError \<and>
   ''optuna'' \<notin> set (table_backends ''bayes'') \<and>
   HyperOpt_init (\<lambda>_ _. Inr ()) ''bayes'' Plain_callable (Some ''optuna'')
     = Inr (''optuna'', Fit_own_fit)"
  by (simp add: table_backends_simps HyperOpt_init_def algorithm_names backend_setter_def
      or_default_def select_search_def use_sklearn_def use_skopt_bayes_def use_skopt_gpmin_def
      is_sklearn_def)

text \<open>
  A pair of the table does not suffice for an estimator: when \<open>GridSearchCV\<close> refuses
  the keyword arguments it is given, its \<open>TypeError\<close> leaves the constructor.
\<close>

lemma estimator_kwargs_refused:
  "HyperOpt_init (\<lambda>_ _. Inr ()) ''grid'' (Sklearn_estimator (\<lambda>_. Inl (TypeError [])))
     (Some ''sklearn'') = Inl (TypeError [])"
  by (simp add: HyperOpt_init_def algorithm_names backend_setter_def assert_in_def
      or_default_def select_search_def use_sklearn_def is_sklearn_def search_cv_def)

text \<open>
  Claim C7, as amended. Without a backend the setter stores \<open>sklearn\<close> for \<open>grid\<close> and
  \<open>random\<close>, \<open>skopt\<close> for \<open>bayes\<close>, \<open>optuna\<close> for \<open>tpe\<close> and \<open>cmaes\<close>, and
  \<open>hyperopt\<close> for \<open>atpe\<close>.
\<close>

theorem backend_defaults:
  "backend_setter ''grid'' None = Inr ''sklearn'' \<and>
   backend_setter ''random'' None = Inr ''sklearn'' \<and>
   backend_setter ''bayes'' None = Inr ''skopt'' \<and>
   backend_setter ''tpe'' None = Inr ''optuna'' \<and>
   backend_setter ''atpe'' None = Inr ''hyperopt'' \<and>
   backend_setter ''cmaes'' None = Inr ''optuna''"
  by (simp add: backend_setter_def assert_in_def or_default_def)

text \<open>Claim C7 as stated fails for \<open>tpe\<close>: its default is not \<open>hyperopt\<close>.\<close>

theorem tpe_default_counterexample:
  "backend_setter ''tpe'' None \<noteq> Inr ''hyperopt''"
  by (simp add: backend_setter_def assert_in_def or_default_def)

text \<open>
  Claim C9. The names \<open>gp\<close>, \<open>forest\<close> and \<open>gbrt\<close> are keys of the table, so they pass
  the constructor's check of the algorithm name; the backend setter raises for each of
  them whatever backend is given (\<open>ValueError\<close> when it is omitted), and so does the
  constructor, whatever the rest of the set-up would do.
\<close>

theorem skopt_algorithms_never_construct:
  "''gp'' \<in> set (map fst ALGORITHMS) \<and> ''forest'' \<in> set (map fst ALGORITHMS) \<and>
   ''gbrt'' \<in> set (map fst ALGORITHMS) \<and>
   isl (backend_setter ''gp'' x) \<and> isl (backend_setter ''forest'' x) \<and>
   isl (backend_setter ''gbrt'' x) \<and>
   backend_setter ''gp'' None = Inl ValueError \<and>
   backend_setter ''forest'' None = Inl ValueError \<and>
   backend_setter ''gbrt'' None = Inl ValueError \<and>
   isl (HyperOpt_init setup ''gp'' sk x) \<and> isl (HyperOpt_init setup ''forest'' sk x) \<and>
   isl (HyperOpt_init setup ''gbrt'' sk x)"
proof -
  have s: "isl (backend_setter ''gp'' x)" "isl (backend_setter ''forest'' x)"
    "isl (backend_setter ''gbrt'' x)"
    by (rule setter_unknown_algorithm, simp)+
  have i: "isl (backend_setter a x) \<Longrightarrow> isl (HyperOpt_init setup a sk x)" for a
    by (cases "backend_setter a x") (simp_all add: HyperOpt_init_def)
  have n: "backend_setter ''gp'' None = Inl ValueError"
    "backend_setter ''forest'' None = Inl ValueError"
    "backend_setter ''gbrt'' None = Inl ValueError"
    by (simp_all add: backend_setter_def)
  show ?thesis
    using s i n by (simp add: algorithm_names)
qed

subsection \<open>The evaluation loop and the result store\<close>

lemmas run_defs =
  grid_search_def ParameterGrid_def grid_points_def eval_sequence_def eval_one_def
  call_objective_def use_named_args_def new_search_def py_round_def Let_def sort_x_iters_def
  original_para_order_def best_paras_def HyperOpt_plot_def skopt_space_def space_from_list_def
  low_high_def checked_library_def np_reduce_def checked_range_def int64_range_def

text \<open>
  Claim C1 fails on the code. A grid search of \<open>f(x) = x / 2\<close> over \<open>x \<in> [1, 0]\<close>
  evaluates \<open>x = 1\<close> to \<open>0.5\<close> and \<open>x = 0\<close> to \<open>0\<close>. The store is keyed by
  \<open>err + idx\<close>, so its keys are \<open>0.5\<close> and \<open>1\<close>, and \<open>best_paras\<close>, which takes
  the smallest key, returns \<open>x = 1\<close>, whose objective value is not the minimum.
\<close>

theorem best_paras_not_minimum:
  "\<exists>h. grid_search (new_search (number_objective (\<lambda>x. x / 2)) [(''x'', [PInt 1, PInt 0])])
          = Inr ([([(''x'', PInt 1)], 1 / 2), ([(''x'', PInt 0)], 0)], h) \<and>
       results h = [(1 / 2, [(''x'', PInt 1)]), (1, [(''x'', PInt 0)])] \<and>
       best_paras h = Inr [(''x'', PInt 1)]"
  by (simp add: run_defs number_objective_def)

text \<open>
  Claim C5 fails on the code. A grid search of \<open>f(x) = x\<close> over \<open>x \<in> [1, 0]\<close>
  evaluates two trials with the values \<open>1\<close> and \<open>0\<close>; both get the key \<open>1\<close>
  (\<open>1 + 0\<close> and \<open>0 + 1\<close>), and the store ends with the single entry of the second
  trial.
\<close>

theorem equal_keys_overwrite:
  "\<exists>h. grid_search (new_search (number_objective (\<lambda>x. x)) [(''x'', [PInt 1, PInt 0])])
          = Inr ([([(''x'', PInt 1)], 1), ([(''x'', PInt 0)], 0)], h) \<and>
       results h = [(1, [(''x'', PInt 0)])]"
  by (simp add: run_defs number_objective_def)

text \<open>The same happens for \<open>f(x) = x\<^sup>2\<close> on the grid \<open>-5, \<dots>, 5\<close>: eleven trials are
  evaluated and six entries remain; the entry with the smallest key happens to be
  \<open>x = 0\<close>.\<close>

lemma grid_x_squared_store:
  "\<exists>ev h. grid_search (new_search (number_objective (\<lambda>x. x * x))
                  [(''x'', map PInt [-5, -4, -3, -2, -1, 0, 1, 2, 3, 4, 5])]) = Inr (ev, h) \<and>
     length ev = 11 \<and> length (results h) = 6 \<and> best_paras h = Inr [(''x'', PInt 0)]"
  by (simp add: run_defs number_objective_def)

subsection \<open>Grid search\<close>

text \<open>A record of a trial is written for every name of the space; the fields of the search
  object other than the store stay as they are during the loop.\<close>

lemma dict_set_keys: "fst ` set (dict_set d k v) = insert k (fst ` set d)"
proof (induction d)
  case Nil
  then show ?case by simp
next
  case (Cons kv d)
  obtain k' v' where kv: "kv = (k', v')" by (cases kv)
  show ?case
  proof (cases "k' = k")
    case True
    then show ?thesis by (simp add: kv)
  next
    case False
    then show ?thesis using Cons by (simp add: kv insert_commute)
  qed
qed

lemma dict_set_not_Nil: "dict_set d k v \<noteq> []"
proof (cases d)
  case Nil
  then show ?thesis by simp
next
  case (Cons kv d')
  obtain k' v' where "kv = (k', v')" by (cases kv)
  with Cons show ?thesis by simp
qed

lemma dict_set_entries: "set (dict_set d k v) \<subseteq> insert (k, v) (set d)"
proof (induction d)
  case Nil
  then show ?case by simp
next
  case (Cons kv d)
  obtain k' v' where kv: "kv = (k', v')" by (cases kv)
  show ?case
  proof (cases "k' = k")
    case True
    then show ?thesis by (auto simp: kv)
  next
    case False
    then show ?thesis using Cons by (auto simp: kv)
  qed
qed

lemma sort_x_iters_loop_returns:
  "set order \<subseteq> fst ` set x \<Longrightarrow>
   \<exists>d. sort_x_iters_loop x order acc = Inr d \<and> fst ` set d = fst ` set acc \<union> set order"
proof (induction order arbitrary: acc)
  case Nil
  then show ?case by simp
next
  case (Cons s order)
  then obtain v where v: "map_of x s = Some v"
    by (cases "map_of x s") (auto simp: map_of_eq_None_iff)
  from Cons have "set order \<subseteq> fst ` set x" by simp
  from Cons.IH [OF this, of "dict_set acc s v"] v show ?case
    by (auto simp: dict_set_keys)
qed

lemma sort_x_iters_returns:
  "set order \<subseteq> fst ` set x \<Longrightarrow> \<exists>d. sort_x_iters x order = Inr d \<and> fst ` set d = set order"
  using sort_x_iters_loop_returns [of order x "[]"] by (simp add: sort_x_iters_def)

lemma sort_x_iters_loop_needs:
  "sort_x_iters_loop x order acc = Inr d \<Longrightarrow> set order \<subseteq> fst ` set x"
proof (induction order arbitrary: acc)
  case Nil
  then show ?case by simp
next
  case (Cons s order)
  then show ?case
    by (cases "map_of x s") (auto dest: map_of_SomeD simp: rev_image_eqI)
qed

lemma sort_x_iters_keys:
  assumes "sort_x_iters x order = Inr d"
  shows "fst ` set d = set order"
proof -
  have "set order \<subseteq> fst ` set x"
    using assms sort_x_iters_loop_needs by (simp add: sort_x_iters_def)
  from sort_x_iters_returns [OF this] assms show ?thesis by auto
qed

lemma same_config_refl: "same_config h h"
  by (simp add: same_config_def)

lemma same_config_results: "same_config h (h\<lparr>results := r\<rparr>)"
  by (simp add: same_config_def)

lemma same_config_trans: "same_config h h1 \<Longrightarrow> same_config h1 h2 \<Longrightarrow> same_config h h2"
  by (simp add: same_config_def)

lemma objective_value_config:
  assumes "same_config h h1"
  shows "objective_value h1 para = objective_value h para"
proof -
  have f: "use_dl4seq_model h1 = use_dl4seq_model h" "objective_fn h1 = objective_fn h"
    "model_mse h1 = model_mse h" "param_space h1 = param_space h"
    using assms by (simp_all add: same_config_def)
  show ?thesis
  proof (cases "use_dl4seq_model h")
    case True
    then show ?thesis
      using f
      by (simp add: objective_value_def call_objective_def dl4seq_model_def
          original_para_order_def Let_def split: sum.splits)
  next
    case False
    note d = objective_value_def call_objective_def use_named_args_def
    show ?thesis
    proof (cases "argspec_varkw (objective_fn h)")
      case (Inl e)
      then show ?thesis using False f by (simp add: d)
    next
      case (Inr kw)
      show ?thesis
      proof (cases kw)
        case None
        show ?thesis
        proof (cases "call_pos (objective_fn h) (map snd para)")
          case (Inl e)
          then show ?thesis using False f Inr None by (cases e) (simp_all add: d)
        next
          case (Inr v)
          then show ?thesis using False f \<open>argspec_varkw (objective_fn h) = Inr kw\<close> None
            by (simp add: d)
        qed
      next
        case (Some n)
        then show ?thesis using False f Inr
          by (cases "call_kw (objective_fn h) para") (simp_all add: d)
      qed
    qed
  qed
qed

lemma complete_records_set:
  "complete_records h \<longleftrightarrow>
     (\<forall>kx \<in> set (results h). set (original_para_order h) \<subseteq> fst ` set (snd kx))"
  by (simp add: complete_records_def list_all_iff)

lemma complete_records_update:
  assumes "complete_records h" "set (original_para_order h) \<subseteq> fst ` set x"
  shows "complete_records (h\<lparr>results := dict_set (results h) key x\<rparr>)"
proof -
  have o: "original_para_order (h\<lparr>results := dict_set (results h) key x\<rparr>)
             = original_para_order h"
    by (simp add: original_para_order_def)
  have "set (original_para_order h) \<subseteq> fst ` set (snd kx)"
    if "kx \<in> set (dict_set (results h) key x)" for kx
  proof (cases "kx = (key, x)")
    case True
    then show ?thesis using assms(2) by simp
  next
    case False
    with that dict_set_entries [of "results h" key x] have "kx \<in> set (results h)"
      by auto
    then show ?thesis using assms(1) by (simp add: complete_records_set)
  qed
  then show ?thesis
    unfolding complete_records_set o by simp
qed

lemma call_objective_step:
  assumes "objective_value h para = Inr v" "complete_records h"
  shows "\<exists>h0. call_objective h para = Inr (v, h0) \<and> same_config h h0 \<and>
           complete_records h0 \<and> (use_dl4seq_model h \<longrightarrow> results h0 \<noteq> [])"
proof (cases "use_dl4seq_model h")
  case True
  from assms(1) True obtain mse d where m: "model_mse h para = Inr mse"
    and d: "sort_x_iters para (original_para_order h) = Inr d" and v: "v = py_round mse 7"
    by (auto simp: objective_value_def call_objective_def dl4seq_model_def Let_def
        split: sum.splits)
  let ?h0 = "h\<lparr>results := dict_set (results h) (py_round mse 7) d\<rparr>"
  have c: "call_objective h para = Inr (v, ?h0)"
    using True m d v by (simp add: call_objective_def dl4seq_model_def Let_def)
  have "set (original_para_order h) \<subseteq> fst ` set d"
    using sort_x_iters_keys [OF d] by simp
  then have "complete_records ?h0"
    using assms(2) by (rule complete_records_update [rotated])
  then show ?thesis
    using c by (auto simp: same_config_results dict_set_not_Nil)
next
  case False
  have "\<exists>h0. call_objective h para = Inr (v, h0)"
    using assms(1) by (cases "call_objective h para") (auto simp: objective_value_def)
  then obtain h0 where c: "call_objective h para = Inr (v, h0)"
    by blast
  have "h0 = h"
  proof (cases "use_named_args h")
    case (Inl e)
    then show ?thesis using c False by (simp add: call_objective_def)
  next
    case (Inr named)
    show ?thesis
    proof (cases named)
      case True
      then show ?thesis
        using c False Inr
        by (cases "call_kw (objective_fn h) para") (simp_all add: call_objective_def)
    next
      case no: False
      show ?thesis
      proof (cases "call_pos (objective_fn h) (map snd para)")
        case (Inl e)
        then show ?thesis
          using c False Inr no by (cases e) (simp_all add: call_objective_def)
      next
        case (Inr w)
        then show ?thesis
          using c False \<open>use_named_args h = Inr named\<close> no by (simp add: call_objective_def)
      qed
    qed
  qed
  then show ?thesis
    using c False assms(2) by (auto simp: same_config_refl)
qed

lemma eval_one_step:
  assumes "objective_value h para = Inr v" "complete_records h"
    and "set (original_para_order h) \<subseteq> fst ` set para"
  shows "\<exists>h1. eval_one h idx para = Inr (py_round v 8, h1) \<and> same_config h h1 \<and>
           complete_records h1 \<and> results h1 \<noteq> []"
proof -
  obtain h0 where c: "call_objective h para = Inr (v, h0)" and s: "same_config h h0"
    and r: "complete_records h0" and n: "use_dl4seq_model h \<longrightarrow> results h0 \<noteq> []"
    using call_objective_step [OF assms(1,2)] by blast
  have o: "original_para_order h0 = original_para_order h"
    and u: "use_dl4seq_model h0 = use_dl4seq_model h"
    using s by (simp_all add: same_config_def original_para_order_def)
  show ?thesis
  proof (cases "use_dl4seq_model h")
    case True
    then show ?thesis
      using c s r n u by (simp add: eval_one_def Let_def)
  next
    case False
    obtain x where x: "sort_x_iters para (original_para_order h0) = Inr x"
      and k: "fst ` set x = set (original_para_order h0)"
      using sort_x_iters_returns [of "original_para_order h0" para] assms(3) o by auto
    let ?h1 = "h0\<lparr>results := dict_set (results h0) (py_round v 8 + real idx) x\<rparr>"
    have e: "eval_one h idx para = Inr (py_round v 8, ?h1)"
      using c x False u by (simp add: eval_one_def Let_def)
    have "complete_records ?h1"
      using r k by (intro complete_records_update) simp_all
    moreover have "same_config h ?h1"
      using s same_config_results same_config_trans by blast
    ultimately show ?thesis
      using e by (auto simp: dict_set_not_Nil)
  qed
qed

lemma eval_loop_returns:
  assumes "\<forall>para \<in> set ps. \<not> isl (objective_value h para) \<and>
             set (original_para_order h) \<subseteq> fst ` set para"
    and "complete_records h"
  shows "\<exists>ev h'. eval_loop h idx ps acc = Inr (acc @ ev, h') \<and> map fst ev = ps \<and>
           (\<forall>pe \<in> set ev. \<exists>v. objective_value h (fst pe) = Inr v \<and> snd pe = py_round v 8) \<and>
           same_config h h' \<and> complete_records h' \<and> (ps \<noteq> [] \<longrightarrow> results h' \<noteq> [])"
  using assms
proof (induction ps arbitrary: h idx acc)
  case Nil
  then show ?case by (simp add: same_config_refl)
next
  case (Cons para ps)
  from Cons.prems(1) obtain v where v: "objective_value h para = Inr v"
    by (cases "objective_value h para") auto
  from Cons.prems have k: "set (original_para_order h) \<subseteq> fst ` set para"
    by simp
  obtain h1 where e: "eval_one h idx para = Inr (py_round v 8, h1)" and s: "same_config h h1"
    and c: "complete_records h1" and n: "results h1 \<noteq> []"
    using eval_one_step [OF v Cons.prems(2) k] by blast
  have o: "original_para_order h1 = original_para_order h"
    using s by (simp add: same_config_def original_para_order_def)
  have "\<forall>q \<in> set ps. \<not> isl (objective_value h1 q) \<and>
          set (original_para_order h1) \<subseteq> fst ` set q"
    using Cons.prems(1) objective_value_config [OF s] o by simp
  from Cons.IH [OF this c, of "Suc idx" "acc @ [(para, py_round v 8)]"]
  obtain ev h' where l: "eval_loop h1 (Suc idx) ps (acc @ [(para, py_round v 8)])
        = Inr ((acc @ [(para, py_round v 8)]) @ ev, h')"
    and m: "map fst ev = ps"
    and vals: "\<forall>pe \<in> set ev. \<exists>v. objective_value h1 (fst pe) = Inr v \<and> snd pe = py_round v 8"
    and s': "same_config h1 h'" and c': "complete_records h'"
    and n': "ps \<noteq> [] \<longrightarrow> results h' \<noteq> []"
    by blast
  have nonempty: "results h' \<noteq> []"
  proof (cases ps)
    case Nil
    then have "h' = h1" using l by simp
    then show ?thesis using n by simp
  next
    case (Cons q qs)
    then show ?thesis using n' by simp
  qed
  let ?ev = "(para, py_round v 8) # ev"
  have 1: "eval_loop h idx (para # ps) acc = Inr (acc @ ?ev, h')"
    using e l by simp
  have 2: "map fst ?ev = para # ps"
    using m by simp
  have 3: "\<forall>pe \<in> set ?ev. \<exists>v. objective_value h (fst pe) = Inr v \<and> snd pe = py_round v 8"
    using v vals objective_value_config [OF s] by auto
  have 4: "same_config h h'"
    using s s' by (rule same_config_trans)
  have 5: "para # ps \<noteq> [] \<longrightarrow> results h' \<noteq> []"
    using nonempty by simp
  show ?case
    by (intro exI conjI) (rule 1, rule 2, rule 3, rule 4, rule c', rule 5)
qed

lemma best_paras_returns:
  assumes "complete_records h" "results h \<noteq> []"
  shows "\<exists>x. best_paras h = Inr x"
proof -
  obtain y ys where y: "sort (map fst (results h)) = y # ys"
    using assms(2) by (cases "sort (map fst (results h))") (auto dest: arg_cong [where f = length])
  then have "y \<in> set (sort (map fst (results h)))"
    by simp
  then have "y \<in> fst ` set (results h)"
    by simp
  then obtain x where x: "map_of (results h) y = Some x"
    by (cases "map_of (results h) y") (auto simp: map_of_eq_None_iff)
  then have "(y, x) \<in> set (results h)"
    by (rule map_of_SomeD)
  then have "set (original_para_order h) \<subseteq> fst ` set (snd (y, x))"
    using assms(1) unfolding complete_records_set by (rule bspec [rotated])
  then have "set (original_para_order h) \<subseteq> fst ` set x"
    by simp
  then obtain d where "sort_x_iters x (map fst (param_space h)) = Inr d"
    using sort_x_iters_returns [of "original_para_order h" x]
    by (auto simp: original_para_order_def)
  then show ?thesis
    using y x by (simp add: best_paras_def)
qed

lemma grid_points_not_Nil:
  "[] \<notin> set (map snd items) \<Longrightarrow> grid_points items \<noteq> []"
proof -
  assume a: "[] \<notin> set (map snd items)"
  have "[] \<notin> set xss \<Longrightarrow> product_lists xss \<noteq> []" for xss :: "'a list list"
  proof (induction xss)
    case Nil
    then show ?case by simp
  next
    case (Cons xs xss)
    then obtain x xs' where "xs = x # xs'" by (cases xs) auto
    moreover from Cons obtain p ps where "product_lists xss = p # ps"
      by (cases "product_lists xss") auto
    ultimately show ?case by simp
  qed
  from this [OF a] show ?thesis by (simp add: grid_points_def)
qed

lemma grid_point_keys:
  "para \<in> set (grid_points items) \<Longrightarrow> map fst para = map fst items"
  by (auto simp: grid_points_def dest: in_set_product_lists_length)





text \<open>A grid search returns when every step of it does: the objective at each point of
  the grid, the writing of the iterations, the conversion of the space and the plots.\<close>

lemma grid_search_returns:
  assumes ne: "[] \<notin> set (map snd (param_space h))"
    and val: "\<forall>para \<in> set (grid_points (sort_key fst (param_space h))).
                \<not> isl (objective_value h para)"
    and fresh: "results h = []"
    and save: "\<forall>r. save_iterations h r = Inr ()"
    and draw: "\<forall>r. draw_plots h r = Inr ()"
    and space: "skopt_space h = Inr ()"
    and once: "\<not> eval_on_best h"
  shows "\<exists>evaluated h'.
           grid_search h = Inr (evaluated, h') \<and>
           map fst evaluated = grid_points (sort_key fst (param_space h)) \<and>
           (\<forall>pe \<in> set evaluated.
              \<exists>v. objective_value h (fst pe) = Inr v \<and> snd pe = py_round v 8) \<and>
           results h' \<noteq> []"
proof -
  let ?items = "sort_key fst (param_space h)"
  have keys: "set (original_para_order h) \<subseteq> fst ` set para"
    if "para \<in> set (grid_points ?items)" for para
  proof -
    have "map fst para = map fst ?items"
      using that by (rule grid_point_keys)
    then have "fst ` set para = fst ` set ?items"
      by (metis set_map)
    then show ?thesis
      by (simp add: original_para_order_def)
  qed
  have c0: "complete_records h"
    using fresh by (simp add: complete_records_def)
  have "[] \<notin> set (map snd ?items)"
    using ne by simp
  then have g0: "grid_points ?items \<noteq> []"
    by (rule grid_points_not_Nil)
  obtain ev h' where run: "eval_loop h 0 (grid_points ?items) [] = Inr (ev, h')"
    and ev: "map fst ev = grid_points ?items"
    and vals: "\<forall>pe \<in> set ev. \<exists>v. objective_value h (fst pe) = Inr v \<and> snd pe = py_round v 8"
    and s: "same_config h h'" and c: "complete_records h'" and n: "results h' \<noteq> []"
    using eval_loop_returns [of "grid_points ?items" h 0 "[]"] val keys c0 g0 by auto
  obtain x where b: "best_paras h' = Inr x"
    using best_paras_returns [OF c n] by blast
  have e: "original_dimensions h' = original_dimensions h" "lib h' = lib h"
    "param_space h' = param_space h"
    using s by (simp_all add: same_config_def)
  have "skopt_space h' = skopt_space h"
    unfolding skopt_space_def e by (rule refl)
  then have p: "HyperOpt_plot h' = Inr ()"
    using s save draw space b by (simp add: HyperOpt_plot_def same_config_def)
  have "\<not> eval_on_best h'"
    using s once by (simp add: same_config_def)
  then have "eval_sequence h (grid_points ?items) = Inr (ev, h')"
    using run p by (simp add: eval_sequence_def del: eval_loop.simps)
  then have "grid_search h = Inr (ev, h')"
    using ne by (simp add: grid_search_def ParameterGrid_def)
  then show ?thesis
    using ev vals n by blast
qed

lemma evaluated_values:
  assumes "map fst ev = ps"
    and "\<forall>pe \<in> set ev. \<exists>v. g (fst pe) = Inr v \<and> snd pe = r v"
    and "\<forall>p \<in> set ps. g p = Inr (val p)"
  shows "ev = map (\<lambda>p. (p, r (val p))) ps"
  using assms
proof (induction ev arbitrary: ps)
  case Nil
  then show ?case by simp
next
  case (Cons pe ev)
  obtain p e where pe: "pe = (p, e)" by (cases pe)
  from Cons.prems(1) obtain qs where ps: "ps = p # qs" and m: "map fst ev = qs"
    by (auto simp: pe)
  from Cons.prems(2) obtain v where "g p = Inr v" "e = r v"
    by (auto simp: pe)
  moreover from Cons.prems(3) have "g p = Inr (val p)"
    by (simp add: ps)
  ultimately have e: "e = r (val p)"
    by simp
  have "ev = map (\<lambda>p. (p, r (val p))) qs"
    using Cons.IH [OF m] Cons.prems(2,3) by (simp add: ps)
  then show ?case
    by (simp add: pe ps e)
qed

lemma param_grid_b_a:
  "ParameterGrid [(''b'', [PInt 1, PInt 2]), (''a'', [PInt 3, PInt 4])] =
     Inr [[(''a'', PInt 3), (''b'', PInt 1)], [(''a'', PInt 3), (''b'', PInt 2)],
          [(''a'', PInt 4), (''b'', PInt 1)], [(''a'', PInt 4), (''b'', PInt 2)]]"
  by (simp add: ParameterGrid_def grid_points_def)

lemma sorted_grid_b_a:
  "grid_points (sort_key fst [(''b'', [PInt 1, PInt 2]), (''a'', [PInt 3, PInt 4])]) =
     [[(''a'', PInt 3), (''b'', PInt 1)], [(''a'', PInt 3), (''b'', PInt 2)],
      [(''a'', PInt 4), (''b'', PInt 1)], [(''a'', PInt 4), (''b'', PInt 2)]]"
  by (simp add: grid_points_def)

lemma skopt_space_b_a:
  "skopt_space (new_search f [(''b'', [PInt 1, PInt 2]), (''a'', [PInt 3, PInt 4])]) = Inr ()"
  by (simp add: skopt_space_def new_search_def space_from_list_def low_high_def
      checked_library_def np_reduce_def checked_range_def int64_range_def)




subsection \<open>Calling the objective\<close>

text \<open>For an external objective the signature decides the one call that is made. With a
  \<open>**kwargs\<close> parameter it is \<open>objective_fn(**para)\<close>, whose outcome is passed on;
  without one it is the positional call, whose \<open>TypeError\<close> is replaced by the one that
  points to \<open>use_named_args\<close>; an error of \<open>inspect.getfullargspec\<close> leaves the loop
  before any call.\<close>

lemma call_objective_external:
  assumes "\<not> use_dl4seq_model h"
  shows "argspec_varkw (objective_fn h) = Inr (Some n) \<Longrightarrow>
           call_objective h para =
             (case call_kw (objective_fn h) para of Inl e \<Rightarrow> Inl e | Inr err \<Rightarrow> Inr (err, h))"
    and "argspec_varkw (objective_fn h) = Inr None \<Longrightarrow>
           call_pos (objective_fn h) (map snd para) = Inr err \<Longrightarrow>
           call_objective h para = Inr (err, h)"
    and "argspec_varkw (objective_fn h) = Inr None \<Longrightarrow>
           call_pos (objective_fn h) (map snd para) = Inl (TypeError m) \<Longrightarrow>
           call_objective h para = Inl (TypeError named_args_message)"
    and "argspec_varkw (objective_fn h) = Inl e \<Longrightarrow> call_objective h para = Inl e"
  using assms by (simp_all add: call_objective_def use_named_args_def)

lemma first_trial_record:
  "eval_one (new_search two_positional [(''b'', [PInt 1, PInt 2]), (''a'', [PInt 3, PInt 4])]) 0
       [(''a'', PInt 3), (''b'', PInt 1)]
     = Inr (1, (new_search two_positional [(''b'', [PInt 1, PInt 2]), (''a'', [PInt 3, PInt 4])])
                 \<lparr>results := [(1, [(''b'', PInt 1), (''a'', PInt 3)])]\<rparr>)"
  by (simp add: eval_one_def call_objective_def use_named_args_def new_search_def
      two_positional_def py_round_def sort_x_iters_def original_para_order_def Let_def)

text \<open>
  Claim C4 fails on the code. The space \<open>{b: [1, 2], a: [3, 4]}\<close> has the canonical
  order \<open>b, a\<close>, and the objective \<open>f(b, a) = b - 2a\<close> has no \<open>**kwargs\<close>. The parameter
  sets of the grid list \<open>a\<close> before \<open>b\<close>, and the loop passes their values as they
  come: the first trial calls \<open>f(3, 1)\<close> and gets \<open>1\<close>, where the values in canonical
  order give \<open>f(1, 3) = -5\<close>. The same trial is recorded as \<open>{b: 1, a: 3}\<close>, in
  canonical order, under the value \<open>1\<close>.
\<close>

theorem positional_call_in_sorted_order:
  "\<exists>h'. grid_search (new_search two_positional
                       [(''b'', [PInt 1, PInt 2]), (''a'', [PInt 3, PInt 4])])
          = Inr ([([(''a'', PInt 3), (''b'', PInt 1)], 1),
                  ([(''a'', PInt 3), (''b'', PInt 2)], - 1),
                  ([(''a'', PInt 4), (''b'', PInt 1)], 2),
                  ([(''a'', PInt 4), (''b'', PInt 2)], 0)], h') \<and>
         original_para_order
           (new_search two_positional [(''b'', [PInt 1, PInt 2]), (''a'', [PInt 3, PInt 4])])
           = [''b'', ''a''] \<and>
         canonical_args [(''a'', PInt 3), (''b'', PInt 1)] [''b'', ''a''] = Inr [PInt 1, PInt 3] \<and>
         call_pos two_positional [PInt 1, PInt 3] = Inr (- 5) \<and>
         eval_one (new_search two_positional
                     [(''b'', [PInt 1, PInt 2]), (''a'', [PInt 3, PInt 4])]) 0
                  [(''a'', PInt 3), (''b'', PInt 1)]
           = Inr (1, (new_search two_positional
                        [(''b'', [PInt 1, PInt 2]), (''a'', [PInt 3, PInt 4])])
                       \<lparr>results := [(1, [(''b'', PInt 1), (''a'', PInt 3)])]\<rparr>)"
proof -
  define h where
    "h = new_search two_positional [(''b'', [PInt 1, PInt 2]), (''a'', [PInt 3, PInt 4])]"
  define ps where
    "ps = [[(''a'', PInt 3), (''b'', PInt 1)], [(''a'', PInt 3), (''b'', PInt 2)],
           [(''a'', PInt 4), (''b'', PInt 1)], [(''a'', PInt 4), (''b'', PInt 2)]]"
  define val where
    "val = (\<lambda>p :: params. case map snd p of [PInt b, PInt a] \<Rightarrow> real_of_int (b - 2 * a) | _ \<Rightarrow> 0)"
  have gp: "grid_points (sort_key fst (param_space h)) = ps"
    by (simp add: h_def ps_def new_search_def grid_points_def)
  have ov: "\<forall>p \<in> set ps. objective_value h p = Inr (val p)"
    by (simp add: ps_def h_def val_def objective_value_def call_objective_def
        use_named_args_def new_search_def two_positional_def)
  have 1: "[] \<notin> set (map snd (param_space h))"
    by (simp add: h_def new_search_def)
  have 2: "\<forall>para \<in> set (grid_points (sort_key fst (param_space h))).
             \<not> isl (objective_value h para)"
    unfolding gp using ov by simp
  have 3: "results h = []" and 4: "\<forall>r. save_iterations h r = Inr ()"
    and 5: "\<forall>r. draw_plots h r = Inr ()" and 7: "\<not> eval_on_best h"
    by (simp_all add: h_def new_search_def)
  have 6: "skopt_space h = Inr ()"
    unfolding h_def by (rule skopt_space_b_a)
  from grid_search_returns [OF 1 2 3 4 5 6 7] obtain ev h' where
    g: "grid_search h = Inr (ev, h')" and m: "map fst ev = ps"
    and v: "\<forall>pe \<in> set ev. \<exists>v. objective_value h (fst pe) = Inr v \<and> snd pe = py_round v 8"
    unfolding gp by blast
  have "ev = map (\<lambda>p. (p, py_round (val p) 8)) ps"
    using m v ov by (rule evaluated_values)
  also have "\<dots> = [([(''a'', PInt 3), (''b'', PInt 1)], 1),
                  ([(''a'', PInt 3), (''b'', PInt 2)], - 1),
                  ([(''a'', PInt 4), (''b'', PInt 1)], 2),
                  ([(''a'', PInt 4), (''b'', PInt 2)], 0)]"
    by (simp add: ps_def val_def py_round_def)
  finally have e: "grid_search h = Inr ([([(''a'', PInt 3), (''b'', PInt 1)], 1),
                  ([(''a'', PInt 3), (''b'', PInt 2)], - 1),
                  ([(''a'', PInt 4), (''b'', PInt 1)], 2),
                  ([(''a'', PInt 4), (''b'', PInt 2)], 0)], h')"
    using g by simp
  have o: "original_para_order h = [''b'', ''a'']"
    by (simp add: h_def new_search_def original_para_order_def)
  have c: "canonical_args [(''a'', PInt 3), (''b'', PInt 1)] [''b'', ''a''] = Inr [PInt 1, PInt 3]"
    by simp
  have p: "call_pos two_positional [PInt 1, PInt 3] = Inr (- 5)"
    by (simp add: two_positional_def)
  have r: "eval_one h 0 [(''a'', PInt 3), (''b'', PInt 1)]
             = Inr (1, h\<lparr>results := [(1, [(''b'', PInt 1), (''a'', PInt 3)])]\<rparr>)"
    unfolding h_def by (rule first_trial_record)
  from e o c p r show ?thesis
    unfolding h_def by (intro exI conjI)
qed

subsection \<open>Saved records\<close>

text \<open>
  Claim C6 fails on the code. \<open>from_gp_parameters\<close> asks the loaded document for its
  \<open>space\<close> entry; the trial-history record has the encoded objective values as its
  keys, so loading it raises \<open>KeyError\<close>. \<open>pre_calculated_results\<close> leaves the
  object as it is: a new search object that has read the record still has an empty
  result store, and \<open>best_paras\<close> raises \<open>IndexError\<close>, while the run that wrote the
  record answers \<open>x = 1\<close>.
\<close>

theorem history_record_not_reloaded:
  "from_gp_parameters setup sk half_history = Inl (KeyError ''space'') \<and>
   results (pre_calculated_results
              (new_search (number_objective (\<lambda>x. x / 2)) [(''x'', [PInt 1, PInt 0])])
              half_history) = [] \<and>
   best_paras (pre_calculated_results
                 (new_search (number_objective (\<lambda>x. x / 2)) [(''x'', [PInt 1, PInt 0])])
                 half_history) = Inl IndexError"
  by (simp add: from_gp_parameters_def json_get_def half_history_def
      pre_calculated_results_def new_search_def best_paras_def)

subsection \<open>Dimensions from literal lists\<close>

text \<open>
  Claim C8, as amended. For a non-empty literal list the first element decides which
  constructor is called, and the result is what that call returns or raises. A string
  gives \<open>Categorical(v)\<close>, and so does \<open>None\<close> as first element when the list is longer
  than two (with at most two elements it is refused with \<open>NotImplementedError\<close>). An
  integer (float) first element gives \<open>Integer\<close> (\<open>Real\<close>): with more than two elements
  the call carries the list as its grid, with at most two elements it is the call with
  \<open>low = np.min(v)\<close> and \<open>high = np.max(v)\<close>, which the constructor may refuse; when
  \<open>np.min\<close> or \<open>np.max\<close> raises, so does the converter.
\<close>

theorem space_from_list_kinds:
  assumes "v \<noteq> []"
  shows "(hd v = PStr s \<longrightarrow> space_from_list l v k = Categorical_of l v k) \<and>
         (hd v = PNone \<and> 2 < length v \<longrightarrow> space_from_list l v k = Categorical_of l v k) \<and>
         (hd v = PNone \<and> length v \<le> 2 \<longrightarrow> space_from_list l v k = Inl NotImplementedError) \<and>
         (hd v = PInt i \<and> 2 < length v \<longrightarrow> space_from_list l v k = Integer_of_grid l v k) \<and>
         (hd v = PFloat x \<and> 2 < length v \<longrightarrow> space_from_list l v k = Real_of_grid l v k) \<and>
         (hd v = PInt i \<and> length v \<le> 2 \<and> np_min l v = Inr lo \<and> np_max l v = Inr hi \<longrightarrow>
            space_from_list l v k = Integer_low_high l lo hi k) \<and>
         (hd v = PFloat x \<and> length v \<le> 2 \<and> np_min l v = Inr lo \<and> np_max l v = Inr hi \<longrightarrow>
            space_from_list l v k = Real_low_high l lo hi k) \<and>
         ((hd v = PInt i \<or> hd v = PFloat x) \<and> length v \<le> 2 \<and>
          (isl (np_min l v) \<or> isl (np_max l v)) \<longrightarrow>
            isl (space_from_list l v k))"
proof -
  obtain a w where v: "v = a # w"
    using assms by (cases v) auto
  show ?thesis
    unfolding v
    by (cases a; cases "np_min l (a # w)"; cases "np_max l (a # w)")
      (auto simp: space_from_list_def low_high_def)
qed

lemma fold_min_hd_tl:
  "xs \<noteq> [] \<Longrightarrow> fold min (tl xs) (hd xs) = Min (set xs)" for xs :: "'a::linorder list"
  using Min.set_eq_fold [of "hd xs" "tl xs"] by simp

lemma fold_max_hd_tl:
  "xs \<noteq> [] \<Longrightarrow> fold max (tl xs) (hd xs) = Max (set xs)" for xs :: "'a::linorder list"
  using Max.set_eq_fold [of "hd xs" "tl xs"] by simp

lemma as_ints_map: "as_ints (map PInt is) = Some is"
  by (induction "is") simp_all

lemma checked_min_max:
  assumes "is \<noteq> []" "list_all int64_range is"
  shows "np_min checked_library (map PInt is) = Inr (PInt (Min (set is)))"
    and "np_max checked_library (map PInt is) = Inr (PInt (Max (set is)))"
  using assms
  by (simp_all add: checked_library_def np_reduce_def as_ints_map fold_min_hd_tl fold_max_hd_tl)

lemma short_integer_list:
  assumes "is \<noteq> []" "length is \<le> 2" "list_all int64_range is"
  shows "space_from_list checked_library (map PInt is) k =
           (if Min (set is) < Max (set is)
            then Inr (Integer_range (PInt (Min (set is))) (PInt (Max (set is))) k)
            else Inl ValueError)"
proof -
  obtain i js where "is = i # js"
    using assms(1) by (cases "is") auto
  then show ?thesis
    using assms checked_min_max [OF assms(1,3)]
    by (simp add: space_from_list_def low_high_def)
      (simp add: checked_library_def checked_range_def)
qed

theorem space_from_list_kinds_witness:
  "space_from_list checked_library [PStr ''relu'', PStr ''elu''] ''act''
     = Inr (Categorical [PStr ''relu'', PStr ''elu''] ''act'') \<and>
   space_from_list checked_library [PNone, PNone, PNone] ''n''
     = Inr (Categorical [PNone, PNone, PNone] ''n'') \<and>
   space_from_list checked_library [PNone, PNone] ''n'' = Inl NotImplementedError \<and>
   space_from_list checked_library [PInt 3, PInt 4, PInt 5] ''depth''
     = Inr (Integer_grid [PInt 3, PInt 4, PInt 5] ''depth'') \<and>
   space_from_list checked_library [PFloat 0.5, PFloat 0.1, PFloat 0.3] ''lr''
     = Inr (Real_grid [PFloat 0.5, PFloat 0.1, PFloat 0.3] ''lr'') \<and>
   space_from_list checked_library [PInt 10, PInt 1] ''depth''
     = Inr (Integer_range (PInt 1) (PInt 10) ''depth'') \<and>
   space_from_list checked_library [PFloat 0.5, PFloat 0.1] ''lr''
     = Inr (Real_range (PFloat 0.1) (PFloat 0.5) ''lr'') \<and>
   isl (space_from_list checked_library [PInt 1, PStr ''a''] ''depth'')"
proof -
  have f: "isl (np_min checked_library [PInt 1, PStr ''a''])"
    by (simp add: checked_library_def np_reduce_def)
  have n: "np_min checked_library [PInt 10, PInt 1] = Inr (PInt 1)"
    "np_max checked_library [PInt 10, PInt 1] = Inr (PInt 10)"
    "np_min checked_library [PFloat 0.5, PFloat 0.1] = Inr (PFloat 0.1)"
    "np_max checked_library [PFloat 0.5, PFloat 0.1] = Inr (PFloat 0.5)"
    by (simp_all add: checked_library_def np_reduce_def int64_range_def)
  have c: "Categorical_of checked_library [PStr ''relu'', PStr ''elu''] ''act''
             = Inr (Categorical [PStr ''relu'', PStr ''elu''] ''act'')"
    "Categorical_of checked_library [PNone, PNone, PNone] ''n''
       = Inr (Categorical [PNone, PNone, PNone] ''n'')"
    "Integer_of_grid checked_library [PInt 3, PInt 4, PInt 5] ''depth''
       = Inr (Integer_grid [PInt 3, PInt 4, PInt 5] ''depth'')"
    "Real_of_grid checked_library [PFloat 0.5, PFloat 0.1, PFloat 0.3] ''lr''
       = Inr (Real_grid [PFloat 0.5, PFloat 0.1, PFloat 0.3] ''lr'')"
    "Integer_low_high checked_library (PInt 1) (PInt 10) ''depth''
       = Inr (Integer_range (PInt 1) (PInt 10) ''depth'')"
    "Real_low_high checked_library (PFloat 0.1) (PFloat 0.5) ''lr''
       = Inr (Real_range (PFloat 0.1) (PFloat 0.5) ''lr'')"
    by (simp_all add: checked_library_def checked_range_def)
  show ?thesis
    using space_from_list_kinds
            [of "[PStr ''relu'', PStr ''elu'']" "''relu''" checked_library "''act''"]
          space_from_list_kinds [of "[PNone, PNone, PNone]" _ checked_library "''n''"]
          space_from_list_kinds [of "[PNone, PNone]" _ checked_library "''n''"]
          space_from_list_kinds
            [of "[PInt 3, PInt 4, PInt 5]" _ checked_library "''depth''" 3]
          space_from_list_kinds
            [of "[PFloat 0.5, PFloat 0.1, PFloat 0.3]" _ checked_library "''lr''" _ "0.5"]
          space_from_list_kinds
            [of "[PInt 10, PInt 1]" _ checked_library "''depth''" 10 _ "PInt 1" "PInt 10"]
          space_from_list_kinds
            [of "[PFloat 0.5, PFloat 0.1]" _ checked_library "''lr''" _ "0.5"
                "PFloat 0.1" "PFloat 0.5"]
          space_from_list_kinds [of "[PInt 1, PStr ''a'']" _ checked_library "''depth''" 1]
          n c f
    by simp
qed

text \<open>Claim C8 as stated fails for a numeric list of at most two elements: \<open>[1, 10]\<close>
  becomes an \<open>Integer\<close> range from 1 to 10, not a \<open>Categorical\<close>.\<close>

theorem short_numeric_list_counterexample:
  "space_from_list checked_library [PInt 1, PInt 10] ''x''
     = Inr (Integer_range (PInt 1) (PInt 10) ''x'') \<and>
   space_from_list checked_library [PInt 1, PInt 10] ''x''
     \<noteq> Categorical_of checked_library [PInt 1, PInt 10] ''x''"
  by (simp add: space_from_list_def low_high_def checked_library_def np_reduce_def
      checked_range_def int64_range_def)

text \<open>A constructor that requires \<open>low < high\<close> refuses the lists \<open>[7]\<close> and
  \<open>[5, 5]\<close>, whose minimum and maximum coincide.\<close>

lemma equal_bounds_refused:
  "space_from_list checked_library [PInt 7] k = Inl ValueError"
  "space_from_list checked_library [PInt 5, PInt 5] k = Inl ValueError"
  by (simp_all add: space_from_list_def low_high_def checked_library_def np_reduce_def
      checked_range_def int64_range_def)

subsection \<open>Attribute lookup\<close>

lemma lookup_optfn_missing:
  "\<not> found_normally self ''optfn'' \<Longrightarrow> lookup depth self ''optfn'' = Inl RecursionError"
  by (induction depth) simp_all

lemma lookup_missing:
  assumes "\<not> found_normally self ''optfn''" "\<not> found_normally self item"
  shows "lookup depth self item = Inl RecursionError"
  using assms lookup_optfn_missing [OF assms(1)] by (cases depth) simp_all

lemma init_dict_optfn:
  "''optfn'' \<in> set (init_dict dl4seq f) \<longleftrightarrow>
     f \<in> {Optfn_RandomizedSearchCV, Optfn_GridSearchCV, Optfn_BayesSearchCV}"
  by (cases f) (simp_all add: init_dict_def)

lemma search_cv_result: "search_cv sk f = Inr g \<Longrightarrow> g = f"
  by (cases sk) (auto simp: search_cv_def split: sum.splits)

lemma select_search_no_optfn:
  assumes "select_search algorithm b sk = Inr f"
    and "use_skopt_gpmin algorithm sk \<or> use_own algorithm sk"
  shows "f \<notin> {Optfn_RandomizedSearchCV, Optfn_GridSearchCV, Optfn_BayesSearchCV}"
  using assms
  by (auto simp: select_search_def use_own_def use_skopt_gpmin_def use_skopt_bayes_def
      use_sklearn_def split: if_splits)

text \<open>With \<open>optfn\<close> in place the lookup returns: an attribute of the search object is
  found, and a name that neither object has raises \<open>AttributeError\<close>.\<close>

lemma lookup_with_optfn:
  assumes "found_normally self ''optfn''" and "\<not> found_normally self item"
  shows "lookup (Suc depth) self item =
           (if optfn_hasattr self item then Inr (Optfn_attr item)
            else Inl (AttributeError (''Attribute '' @ item @ '' not found'')))"
  using assms by (cases depth) simp_all

lemma lookup_of_search_class:
  "lookup 1000 \<lparr>inst_dict = init_dict False Optfn_GridSearchCV,
                  optfn_hasattr = (\<lambda>a. a = ''best_score_''), python_3_11 = True\<rparr>
     ''best_score_'' = Inr (Optfn_attr ''best_score_'')"
  "lookup 1000 \<lparr>inst_dict = init_dict False Optfn_GridSearchCV,
                  optfn_hasattr = (\<lambda>a. a = ''best_score_''), python_3_11 = True\<rparr>
     ''foo'' = Inl (AttributeError ''Attribute foo not found'')"
proof -
  let ?self = "\<lparr>inst_dict = init_dict False Optfn_GridSearchCV,
                optfn_hasattr = (\<lambda>a. a = ''best_score_''), python_3_11 = True\<rparr>"
  have o: "found_normally ?self ''optfn''"
    by (simp add: found_normally_def init_dict_def)
  have a: "\<not> found_normally ?self ''best_score_''"
    by (simp add: found_normally_def init_dict_def HyperOpt_names_def object_names_def)
  have b: "\<not> found_normally ?self ''foo''"
    by (simp add: found_normally_def init_dict_def HyperOpt_names_def object_names_def)
  have d: "(1000 :: nat) = Suc 999"
    by simp
  show "lookup 1000 ?self ''best_score_'' = Inr (Optfn_attr ''best_score_'')"
    unfolding d lookup_with_optfn [OF o a] by simp
  show "lookup 1000 ?self ''foo'' = Inl (AttributeError ''Attribute foo not found'')"
    unfolding d lookup_with_optfn [OF o b] by simp
qed

text \<open>
  Claim C10, as amended. When the constructor has taken the \<open>gp_minimize\<close> branch or
  the branch of the module's own searches, the instance has no \<open>optfn\<close>. The lookup of
  a name that the normal lookup does not find then re-enters \<open>__getattr__\<close> until the
  interpreter's limit on the depth of calls is reached, whatever that limit is, and ends
  with \<open>RecursionError\<close>; it raises no \<open>AttributeError\<close>.
\<close>

theorem lookup_without_optfn:
  assumes "select_search algorithm b sk = Inr f"
    and "use_skopt_gpmin algorithm sk \<or> use_own algorithm sk"
    and "inst_dict self = init_dict dl4seq f"
    and "\<not> found_normally self item"
  shows "lookup depth self item = Inl RecursionError"
proof -
  have "''optfn'' \<notin> set (inst_dict self)"
    using select_search_no_optfn [OF assms(1,2)] assms(3) by (simp add: init_dict_optfn)
  then have "\<not> found_normally self ''optfn''"
    by (simp add: found_normally_def HyperOpt_names_def object_names_def)
  then show ?thesis
    using assms(4) by (rule lookup_missing)
qed

theorem lookup_without_optfn_witness:
  "select_search ''grid'' ''sklearn'' Plain_callable = Inr Fit_grid_search \<and>
   use_own ''grid'' Plain_callable \<and>
   lookup 1000 \<lparr>inst_dict = init_dict False Fit_grid_search, optfn_hasattr = (\<lambda>_. True),
                  python_3_11 = True\<rparr> ''best_score_'' = Inl RecursionError"
proof -
  have s: "select_search ''grid'' ''sklearn'' Plain_callable = Inr Fit_grid_search"
    by (simp add: select_search_def use_own_def use_skopt_gpmin_def use_skopt_bayes_def
        use_sklearn_def is_sklearn_def)
  have u: "use_own ''grid'' Plain_callable"
    by (simp add: use_own_def use_skopt_gpmin_def use_skopt_bayes_def use_sklearn_def
        is_sklearn_def)
  have n: "\<not> found_normally
             \<lparr>inst_dict = init_dict False Fit_grid_search, optfn_hasattr = (\<lambda>_. True),
              python_3_11 = True\<rparr> ''best_score_''"
    by (simp add: found_normally_def init_dict_def HyperOpt_names_def object_names_def)
  show ?thesis
    using lookup_without_optfn [OF s _ _ n, of False 1000] s u by simp
qed

text \<open>
  Claim C10 as stated fails where it says that the lookup does not terminate: after
  \<open>HyperOpt('bayes', objective_fn=f, ...)\<close> with a plain function \<open>f\<close> the lookup of
  \<open>cv_results_\<close> under a limit of 1000 calls ends, with \<open>RecursionError\<close>.
\<close>

theorem lookup_ends_counterexample:
  "select_search ''bayes'' ''skopt'' Plain_callable = Inr Fit_own_fit \<and>
   use_skopt_gpmin ''bayes'' Plain_callable \<and>
   lookup 1000 \<lparr>inst_dict = init_dict False Fit_own_fit, optfn_hasattr = (\<lambda>_. True),
                  python_3_11 = True\<rparr> ''cv_results_'' = Inl RecursionError"
proof -
  have s: "select_search ''bayes'' ''skopt'' Plain_callable = Inr Fit_own_fit"
    by (simp add: select_search_def use_own_def use_skopt_gpmin_def use_skopt_bayes_def
        use_sklearn_def is_sklearn_def)
  have u: "use_skopt_gpmin ''bayes'' Plain_callable"
    by (simp add: use_skopt_gpmin_def is_sklearn_def)
  have o: "\<not> found_normally
             \<lparr>inst_dict = init_dict False Fit_own_fit, optfn_hasattr = (\<lambda>_. True),
              python_3_11 = True\<rparr> ''optfn''"
    by (simp add: found_normally_def init_dict_def HyperOpt_names_def object_names_def)
  have n: "\<not> found_normally
             \<lparr>inst_dict = init_dict False Fit_own_fit, optfn_hasattr = (\<lambda>_. True),
              python_3_11 = True\<rparr> ''cv_results_''"
    by (simp add: found_normally_def init_dict_def HyperOpt_names_def object_names_def)
  show ?thesis
    using lookup_missing [OF o n, of 1000] s u by simp
qed

end
